theory Spec2Isabelle
  imports Complex_Main "HOL-Library.Word"
begin

section \<open>The localization node of neo_localization\<close>

text \<open>
  A shallow embedding of \<^verbatim>\<open>src/neo_localization_node.cpp\<close>: the three callbacks of
  \<^verbatim>\<open>NeoLocalizationNode\<close> (scan, pose estimate, map) as functions from the node's member
  variables to the updated member variables, together with what the callback sends out
  (warnings and transforms).

  Conventions of the embedding.
  \<^item> \<^verbatim>\<open>double\<close> and \<^verbatim>\<open>float\<close> are idealised as \<^typ>\<open>real\<close>: rounding is not modelled, and
    every statement below is about the arithmetic the code writes down, read over the
    reals. The one place where the code's control flow depends on a value that is not a
    number is the test on a scan's ranges, so the ranges (and the coordinates of the
    points made from them) are values of the type \<open>floating\<close>, which has the infinities
    and NaN.
  \<^item> The callbacks run one at a time; the mutex is not modelled.
  \<^item> \<^verbatim>\<open>ROS_INFO_STREAM\<close> output is not modelled; \<^verbatim>\<open>ROS_WARN_STREAM\<close> output is, by its
    text (a number streamed into the text is left out).
  \<^item> Everything that comes from a header or a library outside the source file is a
    field of the record \<open>ext\<close> (matrix product, inverse and projection, the solver step,
    the grid's downscaling and smoothing, the random draw, the tf conversions), so the
    theorems hold for every implementation of them. The two exceptions are the grid's
    constructor and cell assignment, and \<^verbatim>\<open>angles::shortest_angular_distance\<close>, which
    are written out below.
\<close>

subsection \<open>Messages and external types\<close>

type_synonym ros_time = nat

type_synonym matrix = "nat \<Rightarrow> nat \<Rightarrow> real"

type_synonym quaternion = "real \<times> real \<times> real \<times> real"

text \<open>A \<^verbatim>\<open>float\<close> or \<^verbatim>\<open>double\<close> that need not be a number.\<close>

datatype floating = Finite real | PosInf | NegInf | NaN

text \<open>The comparison \<^verbatim>\<open>x <= 0\<close>; like every comparison with NaN it is false for NaN.\<close>

fun le_zero :: "floating \<Rightarrow> bool" where
  "le_zero (Finite r) = (r \<le> 0)"
| "le_zero PosInf = False"
| "le_zero NegInf = True"
| "le_zero NaN = False"

text \<open>The comparison \<^verbatim>\<open>x > 0\<close>.\<close>

fun gt_zero :: "floating \<Rightarrow> bool" where
  "gt_zero (Finite r) = (0 < r)"
| "gt_zero PosInf = True"
| "gt_zero NegInf = False"
| "gt_zero NaN = False"

record tf_transform =
  t_basis :: "nat \<Rightarrow> nat \<Rightarrow> real"
  t_origin :: "nat \<Rightarrow> real"

record pose_msg =
  position :: "real \<times> real \<times> real"
  orientation :: quaternion

record laser_scan =
  scan_frame_id :: string
  scan_stamp :: ros_time
  angle_min :: real
  angle_increment :: real
  ranges :: "floating list"

record pose_estimate =
  pose_frame_id :: string
  pose_stamp :: ros_time
  pose_pose :: pose_msg

record occupancy_grid =
  info_width :: nat
  info_height :: nat
  info_resolution :: real
  info_origin :: pose_msg
  og_data :: "8 word list"

record transform_stamped =
  header_stamp :: ros_time
  header_frame_id :: string
  child_frame_id :: string
  translation :: "real \<times> real \<times> real"
  rotation :: quaternion

datatype effect = WARN string | SendTransform transform_stamped

record scan_point_t =
  point_x :: floating
  point_y :: floating
  point_w :: real

text \<open>The fields of \<^verbatim>\<open>Solver\<close> that the source file reads or writes.\<close>

record solver =
  pose_x :: real
  pose_y :: real
  pose_yaw :: real
  gain :: real
  damping :: real
  r_norm :: real

text \<open>
  Modelled from the spec: \<^verbatim>\<open>GridMap\<close> (header \<^verbatim>\<open>include/GridMap.h\<close> is missing). A square
  grid of \<open>g_size\<close> by \<open>g_size\<close> cells with cell edge \<open>g_scale\<close>; the constructor allocates
  the cells initialised to 0; \<^verbatim>\<open>(*map)(x, y) = v\<close> assigns one cell.
\<close>

record grid_map =
  g_size :: int
  g_scale :: real
  g_cells :: "int \<Rightarrow> int \<Rightarrow> real"

text \<open>Modelled from the spec: the constructor \<^verbatim>\<open>GridMap(size, resolution)\<close>, all cells 0.\<close>

definition GridMap :: "nat \<Rightarrow> real \<Rightarrow> grid_map" where
  "GridMap n res = \<lparr>g_size = int n, g_scale = res, g_cells = (\<lambda>x y. 0)\<rparr>"

text \<open>Modelled from the spec: the assignment \<^verbatim>\<open>(*map)(x, y) = v\<close> to one cell.\<close>

definition grid_assign :: "grid_map \<Rightarrow> int \<Rightarrow> int \<Rightarrow> real \<Rightarrow> grid_map" where
  "grid_assign m x y v = m\<lparr>g_cells := (g_cells m)(x := (g_cells m x)(y := v))\<rparr>"

text \<open>
  A \<^verbatim>\<open>std::normal_distribution<double>\<close> object: its two parameters and whatever the
  library caches between calls. A call returns a value and may change the cache and the
  generator, never the parameters.
\<close>

record normal_distribution =
  dist_mean :: real
  dist_stddev :: real
  dist_saved :: "real option"

record 'gen ext =
  mat_mul :: "matrix \<Rightarrow> matrix \<Rightarrow> matrix"
  mat_inverse :: "matrix \<Rightarrow> matrix"
  mat_project :: "matrix \<Rightarrow> matrix"
  nonfinite_scan_pos :: "matrix \<Rightarrow> real \<Rightarrow> floating \<Rightarrow> floating \<times> floating"
  tf_getYaw :: "(nat \<Rightarrow> nat \<Rightarrow> real) \<Rightarrow> real"
  poseMsgToTF :: "pose_msg \<Rightarrow> tf_transform"
  createQuaternionFromYaw :: "real \<Rightarrow> quaternion"
  solve :: "grid_map \<Rightarrow> scan_point_t list \<Rightarrow> real \<Rightarrow> solver \<Rightarrow> solver"
  normal_draw :: "real \<Rightarrow> real \<Rightarrow> real option \<Rightarrow> 'gen \<Rightarrow> real \<times> real option \<times> 'gen"
  downscale :: "grid_map \<Rightarrow> grid_map"
  smooth_33_1 :: "grid_map \<Rightarrow> grid_map"

text \<open>\<^verbatim>\<open>tf::TransformListener::lookupTransform(target, source, time)\<close>; \<open>None\<close> when it throws.\<close>

type_synonym tf_listener = "string \<Rightarrow> string \<Rightarrow> ros_time \<Rightarrow> tf_transform option"

subsection \<open>Matrix helpers of the source file\<close>

text \<open>
  A matrix is read by row and column. The source relies on a default-constructed
  \<^verbatim>\<open>Matrix\<close> being all zeros (it assigns only the non-zero entries).
\<close>

definition mat_zero :: matrix where
  "mat_zero = (\<lambda>i j. 0)"

definition mat_set :: "matrix \<Rightarrow> nat \<Rightarrow> nat \<Rightarrow> real \<Rightarrow> matrix" where
  "mat_set m i j v = m(i := (m i)(j := v))"

text \<open>A braced initialiser, read row by row as the source lays it out.\<close>

definition mat_init :: "nat \<Rightarrow> real list \<Rightarrow> matrix" where
  "mat_init cols xs = (\<lambda>i j. if j < cols \<and> i * cols + j < length xs then xs ! (i * cols + j) else 0)"

definition rotate25_z :: "real \<Rightarrow> matrix" where
  "rotate25_z rad = mat_init 4
     [cos rad, - sin rad, 0, 0,
      sin rad, cos rad, 0, 0,
      0, 0, 1, rad,
      0, 0, 0, 1]"

definition rotate3_z :: "real \<Rightarrow> matrix" where
  "rotate3_z rad = mat_init 4
     [cos rad, - sin rad, 0, 0,
      sin rad, cos rad, 0, 0,
      0, 0, 1, 0,
      0, 0, 0, 1]"

definition translate25 :: "real \<Rightarrow> real \<Rightarrow> matrix" where
  "translate25 x y = mat_init 4
     [1, 0, 0, x,
      0, 1, 0, y,
      0, 0, 1, 0,
      0, 0, 0, 1]"

definition convert_transform_25 :: "'gen ext \<Rightarrow> tf_transform \<Rightarrow> matrix" where
  "convert_transform_25 E tr =
     (let res = mat_zero;
          res = mat_set res 0 0 (t_basis tr 0 0);
          res = mat_set res 1 0 (t_basis tr 1 0);
          res = mat_set res 0 1 (t_basis tr 0 1);
          res = mat_set res 1 1 (t_basis tr 1 1);
          res = mat_set res 0 3 (t_origin tr 0);
          res = mat_set res 1 3 (t_origin tr 1);
          res = mat_set res 2 3 (tf_getYaw E (t_basis tr));
          res = mat_set res 2 2 1;
          res = mat_set res 3 3 1
      in res)"

definition convert_transform_3 :: "tf_transform \<Rightarrow> matrix" where
  "convert_transform_3 tr =
     (let res = fold (\<lambda>j r. fold (\<lambda>i r. mat_set r i j (t_basis tr i j)) [0..<3] r) [0..<3] mat_zero;
          res = mat_set res 0 3 (t_origin tr 0);
          res = mat_set res 1 3 (t_origin tr 1);
          res = mat_set res 2 3 (t_origin tr 2);
          res = mat_set res 3 3 1
      in res)"

subsection \<open>The angles library\<close>

text \<open>
  \<^verbatim>\<open>angles::shortest_angular_distance\<close> of the ROS \<^verbatim>\<open>angles\<close> package, over the reals:
  \<^verbatim>\<open>fmod\<close> truncates the quotient towards zero.
\<close>

definition fmod :: "real \<Rightarrow> real \<Rightarrow> real" where
  "fmod x y = x - y * of_int (if 0 \<le> x / y then \<lfloor>x / y\<rfloor> else \<lceil>x / y\<rceil>)"

definition normalize_angle_positive :: "real \<Rightarrow> real" where
  "normalize_angle_positive angle = fmod (fmod angle (2 * pi) + 2 * pi) (2 * pi)"

definition normalize_angle :: "real \<Rightarrow> real" where
  "normalize_angle angle =
     (let a = normalize_angle_positive angle in if a > pi then a - 2 * pi else a)"

definition shortest_angular_distance :: "real \<Rightarrow> real \<Rightarrow> real" where
  "shortest_angular_distance from to = normalize_angle (to - from)"

subsection \<open>The node\<close>

record 'gen node =
  m_broadcast_tf :: bool
  m_base_frame :: string
  m_odom_frame :: string
  m_map_frame :: string
  m_map_downscale :: int
  m_num_smooth :: int
  m_solver_iterations :: int
  m_sample_rate :: int
  m_update_gain :: real
  m_confidence_gain :: real
  m_max_confidence :: real
  m_sample_std_x :: real
  m_sample_std_y :: real
  m_sample_std_yaw :: real
  m_offset_x :: real
  m_offset_y :: real
  m_offset_yaw :: real
  m_confidence :: real
  m_offset_time :: ros_time
  m_grid_to_map :: matrix
  m_map :: "grid_map option"
  m_solver :: solver
  m_generator :: 'gen

text \<open>The parameter server, one lookup per parameter type; \<open>None\<close> when the name is not set.\<close>

record param_server =
  get_bool :: "string \<Rightarrow> bool option"
  get_int :: "string \<Rightarrow> int option"
  get_double :: "string \<Rightarrow> real option"
  get_string :: "string \<Rightarrow> string option"

definition param :: "(string \<Rightarrow> 'a option) \<Rightarrow> string \<Rightarrow> 'a \<Rightarrow> 'a" where
  "param lookup name dflt = (case lookup name of Some v \<Rightarrow> v | None \<Rightarrow> dflt)"

text \<open>
  The constructor. \<open>solver0\<close> and \<open>gen0\<close> are the default-constructed \<^verbatim>\<open>Solver\<close> and
  \<^verbatim>\<open>std::mt19937\<close>; the other members start from their in-class initialisers.
\<close>

definition NeoLocalizationNode :: "param_server \<Rightarrow> solver \<Rightarrow> 'gen \<Rightarrow> 'gen node" where
  "NeoLocalizationNode ps solver0 gen0 =
     \<lparr>m_broadcast_tf = param (get_bool ps) ''broadcast_tf'' True,
      m_base_frame = param (get_string ps) ''base_frame'' ''base_link'',
      m_odom_frame = param (get_string ps) ''odom_frame'' ''odom'',
      m_map_frame = param (get_string ps) ''map_frame'' ''map'',
      m_map_downscale = param (get_int ps) ''map_downscale'' 0,
      m_num_smooth = param (get_int ps) ''num_smooth'' 5,
      m_solver_iterations = param (get_int ps) ''solver_iterations'' 20,
      m_sample_rate = param (get_int ps) ''sample_rate'' 10,
      m_update_gain = param (get_double ps) ''update_gain'' 0.5,
      m_confidence_gain = param (get_double ps) ''confidence_gain'' 0.01,
      m_max_confidence = param (get_double ps) ''max_confidence'' 0.95,
      m_sample_std_x = param (get_double ps) ''sample_std_x'' 0.5,
      m_sample_std_y = param (get_double ps) ''sample_std_y'' 0.5,
      m_sample_std_yaw = param (get_double ps) ''sample_std_yaw'' 0.5,
      m_offset_x = 0,
      m_offset_y = 0,
      m_offset_yaw = 0,
      m_confidence = 0,
      m_offset_time = 0,
      m_grid_to_map = mat_zero,
      m_map = None,
      m_solver = solver0\<lparr>gain := param (get_double ps) ''solver_gain'' 0.1,
                         damping := param (get_double ps) ''solver_damping'' 1000\<rparr>,
      m_generator = gen0\<rparr>"

subsection \<open>Publishing the offset\<close>

definition broadcast :: "'gen ext \<Rightarrow> 'gen node \<Rightarrow> effect list" where
  "broadcast E s =
     (if m_broadcast_tf s then
        [SendTransform
           \<lparr>header_stamp = m_offset_time s,
            header_frame_id = m_map_frame s,
            child_frame_id = m_odom_frame s,
            translation = (m_offset_x s, m_offset_y s, 0),
            rotation = createQuaternionFromYaw E (m_offset_yaw s)\<rparr>]
      else [])"

subsection \<open>The scan callback\<close>

definition vec4 :: "real \<Rightarrow> real \<Rightarrow> real \<Rightarrow> real \<Rightarrow> matrix" where
  "vec4 a b c d = mat_init 1 [a, b, c, d]"

text \<open>
  One scan point: the range at angle \<open>angle\<close>, transformed into the base frame by \<open>S\<close>. For
  a range that is a number the product is the one the source writes down. For an
  infinite or NaN range the entries of the product are whatever the matrix library
  computes from it (\<open>nonfinite_scan_pos\<close>); the point exists all the same.
\<close>

definition scan_point :: "'gen ext \<Rightarrow> matrix \<Rightarrow> real \<Rightarrow> floating \<Rightarrow> scan_point_t" where
  "scan_point E S angle rng =
     (case rng of
        Finite r \<Rightarrow>
          (let scan_pos = mat_project E (mat_mul E (mat_mul E S (rotate3_z angle)) (vec4 r 0 0 1))
           in \<lparr>point_x = Finite (scan_pos 0 0), point_y = Finite (scan_pos 1 0), point_w = 1\<rparr>)
      | _ \<Rightarrow>
          (case nonfinite_scan_pos E S angle rng of
             (x, y) \<Rightarrow> \<lparr>point_x = x, point_y = y, point_w = 1\<rparr>))"

text \<open>
  The loop over \<^verbatim>\<open>scan->ranges\<close>: a range for which \<^verbatim>\<open>ranges[i] <= 0\<close> holds is skipped,
  every other one (a positive number, plus infinity, NaN) is transformed into the base
  frame and appended.
\<close>

definition scan_points :: "'gen ext \<Rightarrow> matrix \<Rightarrow> laser_scan \<Rightarrow> scan_point_t list" where
  "scan_points E S scan =
     fold (\<lambda>i points.
        if le_zero (ranges scan ! i) then points
        else points @ [scan_point E S (angle_min scan + real i * angle_increment scan)
                         (ranges scan ! i)])
       [0..<length (ranges scan)] []"

text \<open>A call \<^verbatim>\<open>dist(m_generator)\<close> of a distribution object.\<close>

definition draw :: "'gen ext \<Rightarrow> normal_distribution \<Rightarrow> 'gen \<Rightarrow> real \<times> normal_distribution \<times> 'gen" where
  "draw E d g =
     (case normal_draw E (dist_mean d) (dist_stddev d) (dist_saved d) g of
        (v, c, g') \<Rightarrow> (v, d\<lparr>dist_saved := c\<rparr>, g'))"

text \<open>The inner loop: \<^verbatim>\<open>m_solver.solve<float>(*m_map, points, 1)\<close>, \<^verbatim>\<open>m_solver_iterations\<close> times.\<close>

definition solve_iterations :: "'gen ext \<Rightarrow> grid_map \<Rightarrow> scan_point_t list \<Rightarrow> int \<Rightarrow> solver \<Rightarrow> solver" where
  "solve_iterations E grid points n sol = ((solve E grid points 1) ^^ nat n) sol"

text \<open>The local variables of the search: the solver, the generator, the three distributions and the best sample so far.\<close>

record 'gen search =
  s_solver :: solver
  s_generator :: 'gen
  dist_x :: normal_distribution
  dist_y :: normal_distribution
  dist_yaw :: normal_distribution
  best_x :: real
  best_y :: real
  best_yaw :: real
  best_score :: real

text \<open>One pass of the sampling loop: draw a pose, solve from it, keep it if it is better.\<close>

definition sample_step :: "'gen ext \<Rightarrow> grid_map \<Rightarrow> scan_point_t list \<Rightarrow> int \<Rightarrow> 'gen search \<Rightarrow> 'gen search" where
  "sample_step E grid points iters st =
     (case draw E (dist_x st) (s_generator st) of (vx, dx, g1) \<Rightarrow>
      case draw E (dist_y st) g1 of (vy, dy, g2) \<Rightarrow>
      case draw E (dist_yaw st) g2 of (vyaw, dyaw, g3) \<Rightarrow>
        (let sol = solve_iterations E grid points iters
                     ((s_solver st)\<lparr>pose_x := vx, pose_y := vy, pose_yaw := vyaw\<rparr>);
             st1 = st\<lparr>s_solver := sol, s_generator := g3, dist_x := dx, dist_y := dy, dist_yaw := dyaw\<rparr>
         in if r_norm sol < best_score st
            then st1\<lparr>best_x := pose_x sol, best_y := pose_y sol, best_yaw := pose_yaw sol,
                     best_score := r_norm sol\<rparr>
            else st1))"

text \<open>
  Setting up the distributions and solving the odometry prediction first; \<open>s\<close> holds the
  initial guess in \<open>m_solver\<close>.
\<close>

definition search_init :: "'gen ext \<Rightarrow> grid_map \<Rightarrow> scan_point_t list \<Rightarrow> 'gen node \<Rightarrow> 'gen search" where
  "search_init E grid points s =
     (let rel_std_dev = max (1 - m_confidence s) 0;
          dx = \<lparr>dist_mean = pose_x (m_solver s), dist_stddev = m_sample_std_x s * rel_std_dev, dist_saved = None\<rparr>;
          dy = \<lparr>dist_mean = pose_y (m_solver s), dist_stddev = m_sample_std_y s * rel_std_dev, dist_saved = None\<rparr>;
          dyaw = \<lparr>dist_mean = pose_yaw (m_solver s), dist_stddev = m_sample_std_yaw s * rel_std_dev, dist_saved = None\<rparr>;
          sol = solve_iterations E grid points (m_solver_iterations s) (m_solver s)
      in \<lparr>s_solver = sol, s_generator = m_generator s, dist_x = dx, dist_y = dy, dist_yaw = dyaw,
          best_x = pose_x sol, best_y = pose_y sol, best_yaw = pose_yaw sol, best_score = r_norm sol\<rparr>)"

text \<open>The state of the search after \<open>k\<close> passes of the sampling loop.\<close>

definition search_after :: "'gen ext \<Rightarrow> grid_map \<Rightarrow> scan_point_t list \<Rightarrow> 'gen node \<Rightarrow> nat \<Rightarrow> 'gen search" where
  "search_after E grid points s k =
     ((sample_step E grid points (m_solver_iterations s)) ^^ k) (search_init E grid points s)"

text \<open>The whole search: all \<^verbatim>\<open>m_sample_rate\<close> passes, then the best sample is put back into the solver.\<close>

definition hypothesis_search :: "'gen ext \<Rightarrow> grid_map \<Rightarrow> scan_point_t list \<Rightarrow> 'gen node \<Rightarrow> 'gen search" where
  "hypothesis_search E grid points s =
     (let st = search_after E grid points s (nat (m_sample_rate s))
      in st\<lparr>s_solver := (s_solver st)\<lparr>pose_x := best_x st, pose_y := best_y st, pose_yaw := best_yaw st\<rparr>\<rparr>)"

text \<open>The exponential low pass filter on the offset.\<close>

definition blend_offset :: "matrix \<Rightarrow> ros_time \<Rightarrow> 'gen node \<Rightarrow> 'gen node" where
  "blend_offset new_offset stamp s =
     s\<lparr>m_offset_x := new_offset 0 0 * m_update_gain s + m_offset_x s * (1 - m_update_gain s),
       m_offset_y := new_offset 1 0 * m_update_gain s + m_offset_y s * (1 - m_update_gain s),
       m_offset_yaw := m_offset_yaw s
          + shortest_angular_distance (m_offset_yaw s) (new_offset 2 0) * m_update_gain s,
       m_offset_time := stamp\<rparr>"

definition apply_confidence_gain :: "'gen node \<Rightarrow> 'gen node" where
  "apply_confidence_gain s =
     s\<lparr>m_confidence := m_confidence s + (m_max_confidence s - m_confidence s) * 0.01\<rparr>"

text \<open>From the solver's pose to the new offset, the filter and the confidence gain.\<close>

definition apply_correction :: "'gen ext \<Rightarrow> matrix \<Rightarrow> ros_time \<Rightarrow> 'gen node \<Rightarrow> 'gen node" where
  "apply_correction E L stamp s =
     (let grid_pose_new = mat_mul E (translate25 (pose_x (m_solver s)) (pose_y (m_solver s)))
                            (rotate25_z (pose_yaw (m_solver s)));
          new_offset = mat_project E
             (mat_mul E (mat_mul E (mat_mul E (m_grid_to_map s) grid_pose_new) (mat_inverse E L))
                (vec4 0 0 0 1))
      in apply_confidence_gain (blend_offset new_offset stamp s))"

text \<open>The initial guess of the solver: the odometry prediction in grid coordinates.\<close>

definition set_initial_guess :: "'gen ext \<Rightarrow> matrix \<Rightarrow> 'gen node \<Rightarrow> 'gen node" where
  "set_initial_guess E L s =
     (let T = mat_mul E (translate25 (m_offset_x s) (m_offset_y s)) (rotate25_z (m_offset_yaw s));
          grid_pose = mat_project E
             (mat_mul E (mat_mul E (mat_mul E (mat_inverse E (m_grid_to_map s)) T) L) (vec4 0 0 0 1))
      in s\<lparr>m_solver := (m_solver s)\<lparr>pose_x := grid_pose 0 0, pose_y := grid_pose 1 0,
                                     pose_yaw := grid_pose 2 0\<rparr>\<rparr>)"

definition scan_callback :: "'gen ext \<Rightarrow> tf_listener \<Rightarrow> laser_scan \<Rightarrow> 'gen node \<Rightarrow> effect list \<times> 'gen node" where
  "scan_callback E tf scan s =
     (case m_map s of
        None \<Rightarrow> ([], s)
      | Some grid \<Rightarrow>
          (case tf (m_base_frame s) (scan_frame_id scan) (scan_stamp scan) of
             None \<Rightarrow> ([WARN ''NeoLocalizationNode: lookupTransform(scan->header.frame_id, m_base_frame) failed!''], s)
           | Some sensor_to_base \<Rightarrow>
               (case tf (m_odom_frame s) (m_base_frame s) (scan_stamp scan) of
                  None \<Rightarrow> ([WARN ''NeoLocalizationNode: lookupTransform(m_base_frame, m_odom_frame) failed!''], s)
                | Some base_to_odom \<Rightarrow>
                    (let S = convert_transform_3 sensor_to_base;
                         L = convert_transform_25 E base_to_odom;
                         s1 = set_initial_guess E L s;
                         points = scan_points E S scan
                     in if length points < 10
                        then ([WARN ''Number of points too low: ''], s1)
                        else
                          (let st = hypothesis_search E grid points s1;
                               s2 = s1\<lparr>m_solver := s_solver st, m_generator := s_generator st\<rparr>;
                               s3 = apply_correction E L (scan_stamp scan) s2
                           in (broadcast E s3, s3))))))"

subsection \<open>The pose estimate callback\<close>

definition pose_callback :: "'gen ext \<Rightarrow> tf_listener \<Rightarrow> pose_estimate \<Rightarrow> 'gen node \<Rightarrow> effect list \<times> 'gen node" where
  "pose_callback E tf pose s =
     (if pose_frame_id pose \<noteq> m_map_frame s
      then ([WARN (''NeoLocalizationNode: Invalid pose estimate frame: '' @ pose_frame_id pose)], s)
      else
        (let map_pose = poseMsgToTF E (pose_pose pose)
         in case tf (m_odom_frame s) (m_base_frame s) 0 of
              None \<Rightarrow> ([WARN ''NeoLocalizationNode: lookupTransform(m_base_frame, m_odom_frame) failed!''], s)
            | Some base_to_odom \<Rightarrow>
                (let L = convert_transform_25 E base_to_odom;
                     new_offset = mat_project E
                        (mat_mul E (mat_mul E (convert_transform_25 E map_pose) (mat_inverse E L))
                           (vec4 0 0 0 1));
                     s1 = s\<lparr>m_offset_x := new_offset 0 0,
                            m_offset_y := new_offset 1 0,
                            m_offset_yaw := new_offset 2 0,
                            m_offset_time := pose_stamp pose,
                            m_confidence := 0\<rparr>
                 in (broadcast E s1, s1))))"

subsection \<open>The map callback\<close>

text \<open>One cell of the occupancy grid message (\<^verbatim>\<open>int8\<close>) as an occupancy between 0 and 1.\<close>

definition convert_cell :: "8 word \<Rightarrow> real" where
  "convert_cell cell = (if 0 \<le> sint cell then min (real_of_int (sint cell) / 100) 1 else 0)"

text \<open>
  The two nested loops that fill the grid, row \<open>y\<close> by row. The message is taken to carry
  \<open>width * height\<close> cells, as the message definition says; the source reads
  \<^verbatim>\<open>ros_map->data[y * size + x]\<close> without a check.
\<close>

definition convert_map :: "occupancy_grid \<Rightarrow> grid_map \<Rightarrow> grid_map" where
  "convert_map ros_map grid =
     fold (\<lambda>y g.
        fold (\<lambda>x g. grid_assign g (int x) (int y)
                       (convert_cell (og_data ros_map ! (y * nat (g_size g) + x))))
          [0..<nat (g_size g)] g)
       [0..<nat (g_size grid)] grid"

definition map_callback :: "'gen ext \<Rightarrow> occupancy_grid \<Rightarrow> 'gen node \<Rightarrow> effect list \<times> 'gen node" where
  "map_callback E ros_map s =
     (if info_width ros_map \<noteq> info_height ros_map
      then ([WARN ''NeoLocalizationNode: Invalid map dimensions!''], s)
      else
        (let grid = convert_map ros_map (GridMap (info_width ros_map) (info_resolution ros_map));
             grid = ((downscale E) ^^ nat (m_map_downscale s)) grid;
             grid = ((smooth_33_1 E) ^^ nat (m_num_smooth s)) grid
         in ([], s\<lparr>m_grid_to_map := convert_transform_25 E (poseMsgToTF E (info_origin ros_map)),
                   m_map := Some grid,
                   m_confidence := 0\<rparr>)))"

subsection \<open>The search as the specification words it\<close>

text \<open>
  The state of the trials: the solver, the generator, what the three distributions cache,
  and the best pose and residual norm so far.
\<close>

type_synonym 'gen trial =
  "solver \<times> 'gen \<times> (real option \<times> real option \<times> real option) \<times> (real \<times> real \<times> real \<times> real)"

text \<open>
  This definition follows the words of the specification, not the source: for
  \<open>sampleCount\<close> additional trials, draw a candidate pose from distributions centred on
  the original guess for x, y and yaw with the given standard deviations, run the
  optimizer \<open>iterations\<close> times from the sample, and replace the best if the sample's
  residual norm is strictly lower. It is compared with the source's loop below.
\<close>

fun spec_trials ::
  "'gen ext \<Rightarrow> grid_map \<Rightarrow> scan_point_t list \<Rightarrow> int \<Rightarrow> real \<times> real \<times> real \<Rightarrow> real \<times> real \<times> real
     \<Rightarrow> nat \<Rightarrow> 'gen trial \<Rightarrow> 'gen trial" where
  "spec_trials E grid points iterations guess std 0 t = t"
| "spec_trials E grid points iterations (guess_x, guess_y, guess_yaw) (std_x, std_y, std_yaw) (Suc n)
       (sol, gen, (cache_x, cache_y, cache_yaw), (bx, by, byaw, bscore)) =
     (case normal_draw E guess_x std_x cache_x gen of (x, cache_x', gen1) \<Rightarrow>
      case normal_draw E guess_y std_y cache_y gen1 of (y, cache_y', gen2) \<Rightarrow>
      case normal_draw E guess_yaw std_yaw cache_yaw gen2 of (yaw, cache_yaw', gen3) \<Rightarrow>
        (let sol' = solve_iterations E grid points iterations
                      (sol\<lparr>pose_x := x, pose_y := y, pose_yaw := yaw\<rparr>)
         in spec_trials E grid points iterations (guess_x, guess_y, guess_yaw) (std_x, std_y, std_yaw) n
              (sol', gen3, (cache_x', cache_y', cache_yaw'),
               (if r_norm sol' < bscore
                then (pose_x sol', pose_y sol', pose_yaw sol', r_norm sol')
                else (bx, by, byaw, bscore)))))"

text \<open>The same state read off the local variables of the source's search.\<close>

definition trial_of :: "'gen search \<Rightarrow> 'gen trial" where
  "trial_of st =
     (s_solver st, s_generator st,
      (dist_saved (dist_x st), dist_saved (dist_y st), dist_saved (dist_yaw st)),
      (best_x st, best_y st, best_yaw st, best_score st))"

subsection \<open>Dispatching the callbacks\<close>

text \<open>
  What \<^verbatim>\<open>ros::spin()\<close> does with the three subscriptions: each incoming message runs its
  callback on the node. A scan and a pose estimate come with the state of the tf listener
  at that moment.
\<close>

datatype message =
    ScanMsg tf_listener laser_scan
  | PoseMsg tf_listener pose_estimate
  | MapMsg occupancy_grid

fun handle :: "'gen ext \<Rightarrow> message \<Rightarrow> 'gen node \<Rightarrow> 'gen node" where
  "handle E (ScanMsg tf scan) s = snd (scan_callback E tf scan s)"
| "handle E (PoseMsg tf pose) s = snd (pose_callback E tf pose s)"
| "handle E (MapMsg ros_map) s = snd (map_callback E ros_map s)"

subsection \<open>Occupancy range\<close>

text \<open>Every cell of a grid is an occupancy between 0 and 1.\<close>

definition in_unit_range :: "grid_map \<Rightarrow> bool" where
  "in_unit_range g = (\<forall>x y. 0 \<le> g_cells g x y \<and> g_cells g x y \<le> 1)"

subsection \<open>Concrete inputs\<close>

text \<open>
  One environment and a few messages, used only to instantiate the theorems below at
  concrete inputs. Every theorem is stated for an arbitrary environment \<open>E\<close>.
\<close>

definition ext0 :: "nat ext" where
  "ext0 =
     \<lparr>mat_mul = (\<lambda>a b i j. a i 0 * b 0 j + a i 1 * b 1 j + a i 2 * b 2 j + a i 3 * b 3 j),
      mat_inverse = (\<lambda>a i j.
         if i < 3 \<and> j < 3 then a j i
         else if i < 3 \<and> j = 3 then - (a 0 i * a 0 3 + a 1 i * a 1 3 + a 2 i * a 2 3)
         else if i = 3 \<and> j = 3 then 1 else 0),
      mat_project = (\<lambda>v i j. if i < 3 \<and> j = 0 then v i 0 else 0),
      nonfinite_scan_pos = (\<lambda>S angle rng. (NaN, NaN)),
      tf_getYaw = (\<lambda>b. arctan (b 1 0 / b 0 0)),
      poseMsgToTF = (\<lambda>p.
         \<lparr>t_basis = (\<lambda>i j. if i = j then 1 else 0),
          t_origin = (\<lambda>i. case position p of (x, y, z) \<Rightarrow> if i = 0 then x else if i = 1 then y else z)\<rparr>),
      createQuaternionFromYaw = (\<lambda>yaw. (0, 0, sin (yaw / 2), cos (yaw / 2))),
      solve = (\<lambda>grid points w sol.
         sol\<lparr>pose_x := pose_x sol / 2, pose_y := pose_y sol / 2, r_norm := \<bar>pose_x sol\<bar>\<rparr>),
      normal_draw = (\<lambda>mean sd c g. (mean - sd * real g, c, Suc g)),
      downscale = (\<lambda>g. g),
      smooth_33_1 = (\<lambda>g. g)\<rparr>"

definition tf0 :: tf_listener where
  "tf0 = (\<lambda>target source time. Some \<lparr>t_basis = (\<lambda>i j. if i = j then 1 else 0), t_origin = (\<lambda>i. 0)\<rparr>)"

definition odom_at_4 :: tf_transform where
  "odom_at_4 = \<lparr>t_basis = (\<lambda>i j. if i = j then 1 else 0), t_origin = (\<lambda>i. if i = 0 then 4 else 0)\<rparr>"

definition tf_moved :: tf_listener where
  "tf_moved = (\<lambda>target source time.
     if target = ''odom'' then Some odom_at_4
     else Some \<lparr>t_basis = (\<lambda>i j. if i = j then 1 else 0), t_origin = (\<lambda>i. 0)\<rparr>)"

definition tf_unavailable :: tf_listener where
  "tf_unavailable = (\<lambda>target source time. None)"

definition params0 :: param_server where
  "params0 =
     \<lparr>get_bool = (\<lambda>name. None),
      get_int = (\<lambda>name.
         if name = ''solver_iterations'' then Some 2
         else if name = ''sample_rate'' then Some 2 else None),
      get_double = (\<lambda>name. if name = ''confidence_gain'' then Some (1 / 2) else None),
      get_string = (\<lambda>name. None)\<rparr>"

definition solver0 :: solver where
  "solver0 = \<lparr>pose_x = 0, pose_y = 0, pose_yaw = 0, gain = 0, damping = 0, r_norm = 0\<rparr>"

definition map0 :: occupancy_grid where
  "map0 =
     \<lparr>info_width = 2, info_height = 2, info_resolution = 1 / 20,
      info_origin = \<lparr>position = (0, 0, 0), orientation = (0, 0, 0, 1)\<rparr>,
      og_data = [0, 50, 127, - 1]\<rparr>"

definition map_50x60 :: occupancy_grid where
  "map_50x60 =
     \<lparr>info_width = 50, info_height = 60, info_resolution = 1 / 20,
      info_origin = \<lparr>position = (0, 0, 0), orientation = (0, 0, 0, 1)\<rparr>,
      og_data = replicate 3000 0\<rparr>"

definition scan0 :: laser_scan where
  "scan0 =
     \<lparr>scan_frame_id = ''laser'', scan_stamp = 7, angle_min = 0, angle_increment = 1 / 10,
      ranges = map Finite [1, 1, 1, 1, 1, 1, 1, 1, 1, 1, 1, 1]\<rparr>"

definition scan_few :: laser_scan where
  "scan_few =
     \<lparr>scan_frame_id = ''laser'', scan_stamp = 8, angle_min = 0, angle_increment = 1 / 10,
      ranges = [Finite 1, Finite 2, Finite 0, Finite (- 1), Finite 3, NaN]\<rparr>"

definition scan_nan :: laser_scan where
  "scan_nan =
     \<lparr>scan_frame_id = ''laser'', scan_stamp = 8, angle_min = 0, angle_increment = 1 / 10,
      ranges = [Finite 1, Finite 2, Finite 3, NaN, NaN, NaN, NaN, NaN, NaN, NaN]\<rparr>"

definition pose0 :: pose_estimate where
  "pose0 =
     \<lparr>pose_frame_id = ''map'', pose_stamp = 9,
      pose_pose = \<lparr>position = (1, 2, 0), orientation = (0, 0, 0, 1)\<rparr>\<rparr>"

definition pose_odom :: pose_estimate where
  "pose_odom = pose0\<lparr>pose_frame_id := ''odom''\<rparr>"

definition node0 :: "nat node" where
  "node0 = NeoLocalizationNode params0 solver0 0"

definition node1 :: "nat node" where
  "node1 = snd (map_callback ext0 map0 node0)"

definition node2 :: "nat node" where
  "node2 = snd (scan_callback ext0 tf0 scan0 node1)"

definition node_yaw3 :: "nat node" where
  "node_yaw3 = node0\<lparr>m_offset_yaw := 3, m_update_gain := 3 / 4\<rparr>"

definition offset_yaw_minus3 :: matrix where
  "offset_yaw_minus3 = mat_init 1 [0, 0, - 3]"

definition node_search :: "nat node" where
  "node_search = set_initial_guess ext0 (convert_transform_25 ext0 odom_at_4) node1"

section \<open>Auxiliary facts\<close>

lemma fold_scan_length:
  "length (fold (\<lambda>i points. if le_zero (rs ! i) then points else points @ [f i]) [0..<n] acc)
     = length acc + length (filter (\<lambda>i. \<not> le_zero (rs ! i)) [0..<n])"
  by (induction n arbitrary: acc) auto

lemma kept_range: "\<not> le_zero r \<longleftrightarrow> gt_zero r \<or> r = NaN"
  by (cases r) auto

lemma filter_nth_upt: "length (filter (\<lambda>i. P (xs ! i)) [0..<length xs]) = length (filter P xs)"
proof -
  have "filter P xs = filter P (map (nth xs) [0..<length xs])" by (simp add: map_nth)
  also have "\<dots> = map (nth xs) (filter (P \<circ> nth xs) [0..<length xs])" by (simp only: filter_map)
  finally show ?thesis by (simp add: comp_def)
qed

lemma length_scan_points:
  "length (scan_points E S scan) = length (filter (\<lambda>r. gt_zero r \<or> r = NaN) (ranges scan))"
  unfolding scan_points_def
  by (simp add: fold_scan_length kept_range
        filter_nth_upt [of "\<lambda>r. gt_zero r \<or> r = NaN" "ranges scan"])

lemma blend_offset_confidence: "m_confidence (blend_offset v t s) = m_confidence s"
  and blend_offset_max: "m_max_confidence (blend_offset v t s) = m_max_confidence s"
  by (simp_all add: blend_offset_def)

lemma apply_correction_confidence:
  "m_confidence (apply_correction E L t s) = m_confidence s + (m_max_confidence s - m_confidence s) * 0.01"
  by (simp add: apply_correction_def Let_def apply_confidence_gain_def blend_offset_def)

lemma set_initial_guess_fields:
  "m_confidence (set_initial_guess E L s) = m_confidence s"
  "m_max_confidence (set_initial_guess E L s) = m_max_confidence s"
  "m_offset_x (set_initial_guess E L s) = m_offset_x s"
  "m_offset_y (set_initial_guess E L s) = m_offset_y s"
  "m_offset_yaw (set_initial_guess E L s) = m_offset_yaw s"
  "m_offset_time (set_initial_guess E L s) = m_offset_time s"
  by (simp_all add: set_initial_guess_def Let_def)

lemma scan_callback_success:
  assumes "m_map s = Some grid"
    and "tf (m_base_frame s) (scan_frame_id scan) (scan_stamp scan) = Some s2b"
    and "tf (m_odom_frame s) (m_base_frame s) (scan_stamp scan) = Some b2o"
    and "10 \<le> length (filter (\<lambda>r. gt_zero r \<or> r = NaN) (ranges scan))"
  shows "snd (scan_callback E tf scan s) =
     (let L = convert_transform_25 E b2o;
          s1 = set_initial_guess E L s;
          st = hypothesis_search E grid (scan_points E (convert_transform_3 s2b) scan) s1
      in apply_correction E L (scan_stamp scan) (s1\<lparr>m_solver := s_solver st, m_generator := s_generator st\<rparr>))"
    and "fst (scan_callback E tf scan s) = broadcast E (snd (scan_callback E tf scan s))"
  using assms by (simp_all add: scan_callback_def Let_def length_scan_points)

lemma scan_callback_confidence:
  "m_confidence (snd (scan_callback E tf scan s)) = m_confidence s
   \<or> m_confidence (snd (scan_callback E tf scan s))
       = m_confidence s + (m_max_confidence s - m_confidence s) * 0.01"
  by (simp add: scan_callback_def Let_def apply_correction_confidence set_initial_guess_fields
           split: option.splits)

lemma scan_callback_max_confidence:
  "m_max_confidence (snd (scan_callback E tf scan s)) = m_max_confidence s"
  by (simp add: scan_callback_def Let_def apply_correction_def apply_confidence_gain_def
        blend_offset_def set_initial_guess_def split: option.splits)

lemma pose_callback_confidence:
  "m_confidence (snd (pose_callback E tf pose s)) = m_confidence s
   \<or> m_confidence (snd (pose_callback E tf pose s)) = 0"
  by (simp add: pose_callback_def Let_def split: option.splits)

lemma pose_callback_max_confidence:
  "m_max_confidence (snd (pose_callback E tf pose s)) = m_max_confidence s"
  by (simp add: pose_callback_def Let_def split: option.splits)

lemma map_callback_confidence:
  "m_confidence (snd (map_callback E ros_map s)) = m_confidence s
   \<or> m_confidence (snd (map_callback E ros_map s)) = 0"
  by (simp add: map_callback_def Let_def)

lemma map_callback_max_confidence:
  "m_max_confidence (snd (map_callback E ros_map s)) = m_max_confidence s"
  by (simp add: map_callback_def Let_def)

lemma scan_skip:
  assumes "length (filter (\<lambda>r. gt_zero r \<or> r = NaN) (ranges scan)) < 10"
  shows "(snd (scan_callback E tf scan s) = s
          \<or> (\<exists>L. snd (scan_callback E tf scan s) = set_initial_guess E L s))
         \<and> (\<forall>t. SendTransform t \<notin> set (fst (scan_callback E tf scan s)))"
  using assms
  by (auto simp: scan_callback_def Let_def length_scan_points split: option.splits)

lemma node0_fields:
  "m_confidence node0 = 0" "m_max_confidence node0 = 19 / 20" "m_confidence_gain node0 = 1 / 2"
  "m_map_frame node0 = ''map''" "m_odom_frame node0 = ''odom''" "m_base_frame node0 = ''base_link''"
  "m_broadcast_tf node0" "m_map node0 = None" "m_update_gain node0 = 1 / 2"
  "m_offset_x node0 = 0" "m_offset_y node0 = 0" "m_offset_yaw node0 = 0" "m_offset_time node0 = 0"
  by (simp_all add: node0_def NeoLocalizationNode_def params0_def param_def)

lemma node1_fields:
  "m_confidence node1 = 0" "m_max_confidence node1 = 19 / 20" "m_confidence_gain node1 = 1 / 2"
  "m_map_frame node1 = ''map''" "m_odom_frame node1 = ''odom''" "m_base_frame node1 = ''base_link''"
  "m_broadcast_tf node1" "m_map node1 \<noteq> None" "m_update_gain node1 = 1 / 2"
  "m_offset_x node1 = 0" "m_offset_y node1 = 0" "m_offset_yaw node1 = 0" "m_offset_time node1 = 0"
  by (simp_all add: node1_def map_callback_def map0_def Let_def node0_fields)

lemma scan0_valid: "10 \<le> length (filter (\<lambda>r. gt_zero r \<or> r = NaN) (ranges scan0))"
  by (simp add: scan0_def)

lemma node2_confidence: "m_confidence node2 = 19 / 2000"
proof -
  obtain grid where g: "m_map node1 = Some grid"
    using node1_fields(8) by blast
  obtain a b where a: "tf0 (m_base_frame node1) (scan_frame_id scan0) (scan_stamp scan0) = Some a"
    and b: "tf0 (m_odom_frame node1) (m_base_frame node1) (scan_stamp scan0) = Some b"
    by (simp add: tf0_def)
  have "m_confidence node2 = m_confidence node1 + (m_max_confidence node1 - m_confidence node1) * 0.01"
    unfolding node2_def scan_callback_success(1) [where tf = tf0 and s = node1 and scan = scan0, OF g a b scan0_valid]
    by (simp add: Let_def apply_correction_confidence set_initial_guess_fields)
  then show ?thesis by (simp add: node1_fields)
qed

lemma gain_step_bounds:
  fixes c m :: real
  assumes "c \<le> m"
  shows "c \<le> c + (m - c) * 0.01" and "c + (m - c) * 0.01 \<le> m"
proof -
  have "0 \<le> (m - c) * 0.01" using assms by simp
  then show "c \<le> c + (m - c) * 0.01" by linarith
  have "(m - c) * 0.01 \<le> m - c" using assms by (simp add: field_simps)
  then show "c + (m - c) * 0.01 \<le> m" by linarith
qed

lemma handle_confidence_step:
  assumes "0 \<le> m_confidence s" and "m_confidence s \<le> m_max_confidence s"
  shows "0 \<le> m_confidence (handle E msg s)
         \<and> m_confidence (handle E msg s) \<le> m_max_confidence (handle E msg s)
         \<and> m_max_confidence (handle E msg s) = m_max_confidence s"
proof (cases msg)
  case (ScanMsg tf scan)
  show ?thesis
    using assms scan_callback_confidence [of E tf scan s] ScanMsg gain_step_bounds [OF assms(2)]
    by (auto simp: scan_callback_max_confidence)
next
  case (PoseMsg tf pose)
  then show ?thesis
    using assms pose_callback_confidence [of E tf pose s]
    by (auto simp: pose_callback_max_confidence)
next
  case (MapMsg ros_map)
  then show ?thesis
    using assms map_callback_confidence [of E ros_map s]
    by (auto simp: map_callback_max_confidence)
qed

lemma handle_confidence_run:
  assumes "0 \<le> m_confidence s" and "m_confidence s \<le> m_max_confidence s"
  shows "0 \<le> m_confidence (fold (handle E) msgs s)
         \<and> m_confidence (fold (handle E) msgs s) \<le> m_max_confidence s
         \<and> m_max_confidence (fold (handle E) msgs s) = m_max_confidence s"
  using assms
proof (induction msgs arbitrary: s)
  case Nil
  then show ?case by simp
next
  case (Cons msg msgs)
  from handle_confidence_step [OF Cons.prems, of E msg]
  have step: "0 \<le> m_confidence (handle E msg s)"
    "m_confidence (handle E msg s) \<le> m_max_confidence (handle E msg s)"
    "m_max_confidence (handle E msg s) = m_max_confidence s"
    by simp_all
  from Cons.IH [OF step(1) step(2)] step(3) show ?case by simp
qed

lemma node2_frames:
  "m_map_frame node2 = ''map''" "m_odom_frame node2 = ''odom''" "m_base_frame node2 = ''base_link''"
  by (simp_all add: node2_def scan_callback_def Let_def apply_correction_def apply_confidence_gain_def
        blend_offset_def set_initial_guess_def node1_fields split: option.splits)

subsection \<open>Angles\<close>

lemma sin_less_self:
  fixes x :: real
  assumes "0 < x" and "x < pi"
  shows "sin x < x"
proof -
  have h: "0 < x / 2" "x / 2 < pi" using assms by simp_all
  have c: "cos (x / 2) < 1"
    using cos_monotone_0_pi [of 0 "x / 2"] h by simp
  have s: "0 < sin (x / 2)" using sin_gt_zero h by blast
  have "sin x = 2 * sin (x / 2) * cos (x / 2)"
    using sin_double [of "x / 2"] by simp
  also have "\<dots> < 2 * sin (x / 2) * 1"
    using c s by (intro mult_strict_left_mono) simp_all
  also have "\<dots> \<le> 2 * (x / 2)"
    using sin_x_le_x [of "x / 2"] h by simp
  finally show ?thesis by simp
qed

lemma pi_gt_three: "3 < pi"
proof -
  have "sin (pi / 6) < pi / 6"
    by (rule sin_less_self) simp_all
  then show ?thesis by (simp add: sin_30)
qed

lemma fmod_nonneg:
  assumes "0 < y" and "0 \<le> x"
  shows "0 \<le> fmod x y" and "fmod x y < y"
proof -
  have q: "0 \<le> x / y" using assms by simp
  have "of_int \<lfloor>x / y\<rfloor> * y \<le> x" using floor_divide_lower [OF assms(1)] .
  then show "0 \<le> fmod x y" using q by (simp add: fmod_def mult.commute)
  have "x < (of_int \<lfloor>x / y\<rfloor> + 1) * y" using floor_divide_upper [OF assms(1)] .
  then show "fmod x y < y" using q by (simp add: fmod_def algebra_simps)
qed

lemma fmod_bounds:
  assumes "0 < y"
  shows "- y < fmod x y" and "fmod x y < y"
proof -
  have "- y < fmod x y \<and> fmod x y < y"
  proof (cases "0 \<le> x")
    case True
    then show ?thesis using fmod_nonneg [OF assms True] assms by simp
  next
    case False
    show ?thesis
    proof (cases "0 \<le> x / y")
      case True
      then have "x / y = 0" using False assms by (simp add: zero_le_divide_iff)
      then show ?thesis using False assms by simp
    next
      case neg: False
      have "x \<le> of_int \<lceil>x / y\<rceil> * y" using ceiling_divide_upper [OF assms] .
      moreover have "(of_int \<lceil>x / y\<rceil> - 1) * y < x" using ceiling_divide_lower [OF assms] .
      ultimately show ?thesis using neg assms by (simp add: fmod_def algebra_simps)
    qed
  qed
  then show "- y < fmod x y" and "fmod x y < y" by simp_all
qed

lemma fmod_shift: "\<exists>k::int. fmod x y = x + y * of_int k"
proof
  show "fmod x y = x + y * of_int (- (if 0 \<le> x / y then \<lfloor>x / y\<rfloor> else \<lceil>x / y\<rceil>))"
    by (simp add: fmod_def)
qed

lemma normalize_angle_positive_range:
  "0 \<le> normalize_angle_positive a" "normalize_angle_positive a < 2 * pi"
proof -
  have p: "(0::real) < 2 * pi" by simp
  have "0 \<le> fmod a (2 * pi) + 2 * pi" using fmod_bounds(1) [OF p, of a] by simp
  from fmod_nonneg [OF p this]
  show "0 \<le> normalize_angle_positive a" "normalize_angle_positive a < 2 * pi"
    by (simp_all add: normalize_angle_positive_def)
qed

lemma normalize_angle_positive_shift: "\<exists>k::int. normalize_angle_positive a = a + 2 * pi * of_int k"
proof -
  obtain k :: int where k: "fmod a (2 * pi) = a + 2 * pi * of_int k"
    using fmod_shift by blast
  obtain l :: int where l: "fmod (fmod a (2 * pi) + 2 * pi) (2 * pi) = (fmod a (2 * pi) + 2 * pi) + 2 * pi * of_int l"
    using fmod_shift by blast
  have "normalize_angle_positive a = (fmod a (2 * pi) + 2 * pi) + 2 * pi * of_int l"
    unfolding normalize_angle_positive_def by (rule l)
  also have "\<dots> = a + 2 * pi * of_int (k + 1 + l)"
    unfolding k by (simp add: algebra_simps)
  finally have "normalize_angle_positive a = a + 2 * pi * of_int (k + 1 + l)" .
  then show ?thesis ..
qed

lemma normalize_angle_range: "- pi < normalize_angle a" "normalize_angle a \<le> pi"
  using normalize_angle_positive_range [of a]
  by (simp_all add: normalize_angle_def Let_def)

lemma normalize_angle_shift: "\<exists>k::int. normalize_angle a = a + 2 * pi * of_int k"
proof -
  obtain k :: int where k: "normalize_angle_positive a = a + 2 * pi * of_int k"
    using normalize_angle_positive_shift by blast
  show ?thesis
  proof (cases "normalize_angle_positive a > pi")
    case True
    then have "normalize_angle a = a + 2 * pi * of_int (k - 1)"
      by (simp add: normalize_angle_def Let_def k algebra_simps)
    then show ?thesis ..
  next
    case False
    then have "normalize_angle a = a + 2 * pi * of_int k"
      by (simp add: normalize_angle_def Let_def k)
    then show ?thesis ..
  qed
qed

lemma normalize_angle_unique:
  fixes k :: int
  assumes "- pi < a + 2 * pi * of_int k" and "a + 2 * pi * of_int k \<le> pi"
  shows "normalize_angle a = a + 2 * pi * of_int k"
proof -
  obtain l :: int where l: "normalize_angle a = a + 2 * pi * of_int l"
    using normalize_angle_shift by blast
  have "2 * pi * of_int (l - k) < 2 * pi * 1" "2 * pi * of_int (k - l) < 2 * pi * 1"
    using normalize_angle_range [of a] assms l by (simp_all add: algebra_simps)
  then have "real_of_int (l - k) < 1" "real_of_int (k - l) < 1"
    using mult_less_cancel_left_pos [of "2 * pi" "real_of_int (l - k)" 1]
      mult_less_cancel_left_pos [of "2 * pi" "real_of_int (k - l)" 1]
    by simp_all
  then have "l = k" by linarith
  then show ?thesis using l by simp
qed

lemma shortest_3_minus3: "shortest_angular_distance 3 (- 3) = 2 * pi - 6"
  using normalize_angle_unique [of "- 6" 1] pi_gt_three pi_less_4
  by (simp add: shortest_angular_distance_def)

lemma shortest_angular_distance_range:
  "- pi < shortest_angular_distance a b" "shortest_angular_distance a b \<le> pi"
  by (simp_all add: shortest_angular_distance_def normalize_angle_range)

lemma shortest_angular_distance_target:
  "\<exists>k::int. a + shortest_angular_distance a b = b + 2 * pi * of_int k"
proof -
  obtain k :: int where "normalize_angle (b - a) = (b - a) + 2 * pi * of_int k"
    using normalize_angle_shift by blast
  then have "a + shortest_angular_distance a b = b + 2 * pi * of_int k"
    by (simp add: shortest_angular_distance_def)
  then show ?thesis ..
qed

lemma scale_between:
  fixes d g :: real
  assumes "0 \<le> g" and "g \<le> 1"
  shows "0 \<le> d \<Longrightarrow> 0 \<le> d * g \<and> d * g \<le> d" and "d \<le> 0 \<Longrightarrow> d \<le> d * g \<and> d * g \<le> 0"
proof -
  show "0 \<le> d \<Longrightarrow> 0 \<le> d * g \<and> d * g \<le> d"
    using assms mult_left_le [of g d] by simp
  show "d \<le> 0 \<Longrightarrow> d \<le> d * g \<and> d * g \<le> 0"
    using assms mult_left_le [of g "- d"] by (simp add: mult_nonpos_nonneg)
qed

subsection \<open>The search\<close>



lemma search_after_Suc:
  "search_after E grid points s (Suc k)
     = sample_step E grid points (m_solver_iterations s) (search_after E grid points s k)"
  by (simp add: search_after_def)


lemma sample_step_dists:
  "dist_mean (dist_x (sample_step E grid points iters st)) = dist_mean (dist_x st)"
  "dist_stddev (dist_x (sample_step E grid points iters st)) = dist_stddev (dist_x st)"
  "dist_mean (dist_y (sample_step E grid points iters st)) = dist_mean (dist_y st)"
  "dist_stddev (dist_y (sample_step E grid points iters st)) = dist_stddev (dist_y st)"
  "dist_mean (dist_yaw (sample_step E grid points iters st)) = dist_mean (dist_yaw st)"
  "dist_stddev (dist_yaw (sample_step E grid points iters st)) = dist_stddev (dist_yaw st)"
  by (auto simp: sample_step_def draw_def Let_def split: prod.splits)

lemma search_after_dists:
  "dist_mean (dist_x (search_after E grid points s k)) = pose_x (m_solver s)"
  "dist_stddev (dist_x (search_after E grid points s k)) = m_sample_std_x s * max (1 - m_confidence s) 0"
  "dist_mean (dist_y (search_after E grid points s k)) = pose_y (m_solver s)"
  "dist_stddev (dist_y (search_after E grid points s k)) = m_sample_std_y s * max (1 - m_confidence s) 0"
  "dist_mean (dist_yaw (search_after E grid points s k)) = pose_yaw (m_solver s)"
  "dist_stddev (dist_yaw (search_after E grid points s k)) = m_sample_std_yaw s * max (1 - m_confidence s) 0"
proof (induction k)
  case 0
  {
    case 1 show ?case by (simp add: search_after_def search_init_def Let_def)
  next
    case 2 show ?case by (simp add: search_after_def search_init_def Let_def)
  next
    case 3 show ?case by (simp add: search_after_def search_init_def Let_def)
  next
    case 4 show ?case by (simp add: search_after_def search_init_def Let_def)
  next
    case 5 show ?case by (simp add: search_after_def search_init_def Let_def)
  next
    case 6 show ?case by (simp add: search_after_def search_init_def Let_def)
  }
next
  case (Suc k)
  {
    case 1 show ?case unfolding search_after_Suc sample_step_dists by (rule Suc)
  next
    case 2 show ?case unfolding search_after_Suc sample_step_dists by (rule Suc)
  next
    case 3 show ?case unfolding search_after_Suc sample_step_dists by (rule Suc)
  next
    case 4 show ?case unfolding search_after_Suc sample_step_dists by (rule Suc)
  next
    case 5 show ?case unfolding search_after_Suc sample_step_dists by (rule Suc)
  next
    case 6 show ?case unfolding search_after_Suc sample_step_dists by (rule Suc)
  }
qed

subsection \<open>Filling the grid\<close>

lemma convert_cell_range: "0 \<le> convert_cell v" "convert_cell v \<le> 1"
  by (simp_all add: convert_cell_def del: of_int_sint)

lemma grid_assign_simps:
  "g_size (grid_assign g x y v) = g_size g"
  "g_scale (grid_assign g x y v) = g_scale g"
  "g_cells (grid_assign g x y v) = (\<lambda>x' y'. if x' = x \<and> y' = y then v else g_cells g x' y')"
  by (auto simp: grid_assign_def fun_eq_iff)

lemma fill_row:
  "g_size (fold (\<lambda>x g. grid_assign g (int x) y (c x (g_size g))) [0..<m] g) = g_size g
   \<and> g_scale (fold (\<lambda>x g. grid_assign g (int x) y (c x (g_size g))) [0..<m] g) = g_scale g
   \<and> g_cells (fold (\<lambda>x g. grid_assign g (int x) y (c x (g_size g))) [0..<m] g)
       = (\<lambda>x' y'. if y' = y \<and> 0 \<le> x' \<and> x' < int m then c (nat x') (g_size g) else g_cells g x' y')"
proof (induction m)
  case 0
  show ?case by (auto simp: fun_eq_iff)
next
  case (Suc m)
  show ?case
    apply (simp add: Suc grid_assign_simps fun_eq_iff)
    apply (intro allI impI conjI)
     apply (auto simp: nat_eq_iff)
    done
qed

lemma fill_rows:
  "g_size (fold (\<lambda>y g. fold (\<lambda>x g. grid_assign g (int x) (int y) (c x y (g_size g))) [0..<nat (g_size g)] g) [0..<k] g) = g_size g
   \<and> g_scale (fold (\<lambda>y g. fold (\<lambda>x g. grid_assign g (int x) (int y) (c x y (g_size g))) [0..<nat (g_size g)] g) [0..<k] g) = g_scale g
   \<and> g_cells (fold (\<lambda>y g. fold (\<lambda>x g. grid_assign g (int x) (int y) (c x y (g_size g))) [0..<nat (g_size g)] g) [0..<k] g)
       = (\<lambda>x' y'. if 0 \<le> y' \<and> y' < int k \<and> 0 \<le> x' \<and> x' < g_size g
                   then c (nat x') (nat y') (g_size g) else g_cells g x' y')"
  (is "g_size (?rows k) = _ \<and> g_scale (?rows k) = _ \<and> g_cells (?rows k) = ?cells k")
proof (induction k)
  case 0
  show ?case by (auto simp: fun_eq_iff)
next
  case (Suc k)
  from Suc have sz: "g_size (?rows k) = g_size g" and sc: "g_scale (?rows k) = g_scale g"
    and ce: "g_cells (?rows k) = ?cells k"
    by blast+
  have step: "?rows (Suc k)
      = fold (\<lambda>x g. grid_assign g (int x) (int k) (c x k (g_size g))) [0..<nat (g_size g)] (?rows k)"
    by (simp add: sz)
  note row = fill_row [of "int k" "\<lambda>x. c x k" "nat (g_size g)" "?rows k", unfolded sz sc ce]
  have 1: "g_size (?rows (Suc k)) = g_size g" unfolding step using row by blast
  have 2: "g_scale (?rows (Suc k)) = g_scale g" unfolding step using row by blast
  have 3: "g_cells (?rows (Suc k))
      = (\<lambda>x' y'. if y' = int k \<and> 0 \<le> x' \<and> x' < int (nat (g_size g)) then c (nat x') k (g_size g)
                  else ?cells k x' y')"
    unfolding step using row by blast
  have 4: "g_cells (?rows (Suc k)) = ?cells (Suc k)"
    unfolding 3 by (auto simp: fun_eq_iff)
  from 1 2 4 show ?case by blast
qed

lemma convert_map_cells:
  "g_size (convert_map ros_map (GridMap n res)) = int n"
  "g_scale (convert_map ros_map (GridMap n res)) = res"
  "g_cells (convert_map ros_map (GridMap n res)) x y
     = (if 0 \<le> x \<and> x < int n \<and> 0 \<le> y \<and> y < int n
        then convert_cell (og_data ros_map ! (nat y * n + nat x)) else 0)"
  unfolding convert_map_def
  using fill_rows [of "\<lambda>x y sz. convert_cell (og_data ros_map ! (y * nat sz + x))" "nat (g_size (GridMap n res))" "GridMap n res"]
  by (auto simp: GridMap_def)

subsection \<open>The concrete inputs evaluated\<close>

lemma ext0_simps:
  "solve ext0 = (\<lambda>grid points w sol.
         sol\<lparr>pose_x := pose_x sol / 2, pose_y := pose_y sol / 2, r_norm := \<bar>pose_x sol\<bar>\<rparr>)"
  "normal_draw ext0 = (\<lambda>mean sd c g. (mean - sd * real g, c, Suc g))"
  "downscale ext0 = (\<lambda>g. g)" "smooth_33_1 ext0 = (\<lambda>g. g)"
  by (simp_all add: ext0_def)

lemma node1_search_fields:
  "m_solver_iterations node1 = 2" "m_sample_rate node1 = 2"
  "m_sample_std_x node1 = 1 / 2" "m_sample_std_y node1 = 1 / 2" "m_sample_std_yaw node1 = 1 / 2"
  "m_generator node1 = 0"
  by (simp_all add: node1_def map_callback_def map0_def Let_def node0_def
        NeoLocalizationNode_def params0_def param_def)

lemma node_search_solver:
  "m_solver node_search = solver0\<lparr>pose_x := 4, gain := 1 / 10, damping := 1000\<rparr>"
  by (simp add: node_search_def odom_at_4_def set_initial_guess_def Let_def node1_def map_callback_def
        map0_def node0_def NeoLocalizationNode_def params0_def param_def ext0_def
        convert_transform_25_def mat_set_def mat_zero_def vec4_def mat_init_def translate25_def
        rotate25_z_def solver0_def)




lemma funpow_in_unit_range:
  assumes "\<And>g. in_unit_range g \<Longrightarrow> in_unit_range (f g)" and "in_unit_range g"
  shows "in_unit_range ((f ^^ n) g)"
  using assms by (induction n) simp_all

lemma funpow_ident: "((\<lambda>g. g) ^^ n) x = x"
  by (induction n) simp_all

lemma convert_map_in_unit_range: "in_unit_range (convert_map ros_map (GridMap n res))"
  by (simp add: in_unit_range_def convert_map_cells convert_cell_range)

lemma map0_fields:
  "info_width map0 = 2" "info_height map0 = 2" "og_data map0 = [0, 50, 127, - 1]"
  "info_resolution map0 = 1 / 20"
  by (simp_all add: map0_def)

lemma scan_callback_few:
  assumes "m_map s = Some grid"
    and "tf (m_base_frame s) (scan_frame_id scan) (scan_stamp scan) = Some s2b"
    and "tf (m_odom_frame s) (m_base_frame s) (scan_stamp scan) = Some b2o"
    and "length (filter (\<lambda>r. gt_zero r \<or> r = NaN) (ranges scan)) < 10"
  shows "scan_callback E tf scan s
     = ([WARN ''Number of points too low: ''], set_initial_guess E (convert_transform_25 E b2o) s)"
  using assms by (simp add: scan_callback_def Let_def length_scan_points)

lemma scan_callback_map: "m_map (snd (scan_callback E tf scan s)) = m_map s"
  by (simp add: scan_callback_def Let_def apply_correction_def apply_confidence_gain_def
        blend_offset_def set_initial_guess_def split: option.splits)

lemma node2_map: "m_map node2 = Some (convert_map map0 (GridMap 2 (1 / 20)))"
  unfolding node2_def scan_callback_map
  by (simp add: node1_def map_callback_def Let_def map0_fields ext0_simps funpow_ident)

lemma few_example:
  "scan_callback ext0 tf0 scan_few node2
     = ([WARN ''Number of points too low: ''],
        set_initial_guess ext0 (convert_transform_25 ext0
          \<lparr>t_basis = (\<lambda>i j. if i = j then 1 else 0), t_origin = (\<lambda>i. 0)\<rparr>) node2)"
  by (rule scan_callback_few [where tf = tf0 and s = node2 and scan = scan_few, OF node2_map])
     (simp_all add: tf0_def scan_few_def)

subsection \<open>The search against its specification\<close>

lemma spec_trials_funpow:
  "trial_of (((sample_step E grid points iters) ^^ n) st)
     = spec_trials E grid points iters
         (dist_mean (dist_x st), dist_mean (dist_y st), dist_mean (dist_yaw st))
         (dist_stddev (dist_x st), dist_stddev (dist_y st), dist_stddev (dist_yaw st))
         n (trial_of st)"
proof (induction n arbitrary: st)
  case 0
  show ?case by simp
next
  case (Suc n)
  have step: "spec_trials E grid points iters
         (dist_mean (dist_x st), dist_mean (dist_y st), dist_mean (dist_yaw st))
         (dist_stddev (dist_x st), dist_stddev (dist_y st), dist_stddev (dist_yaw st))
         (Suc n) (trial_of st)
      = spec_trials E grid points iters
         (dist_mean (dist_x st), dist_mean (dist_y st), dist_mean (dist_yaw st))
         (dist_stddev (dist_x st), dist_stddev (dist_y st), dist_stddev (dist_yaw st))
         n (trial_of (sample_step E grid points iters st))"
    by (simp add: trial_of_def sample_step_def draw_def Let_def split: prod.splits)
  have "trial_of (((sample_step E grid points iters) ^^ Suc n) st)
      = trial_of (((sample_step E grid points iters) ^^ n) (sample_step E grid points iters st))"
    by (simp only: funpow_Suc_right comp_apply)
  also have "\<dots> = spec_trials E grid points iters
         (dist_mean (dist_x st), dist_mean (dist_y st), dist_mean (dist_yaw st))
         (dist_stddev (dist_x st), dist_stddev (dist_y st), dist_stddev (dist_yaw st))
         n (trial_of (sample_step E grid points iters st))"
    unfolding Suc.IH sample_step_dists ..
  finally show ?case unfolding step .
qed

lemma hypothesis_search_spec:
  "(let guess = (pose_x (m_solver s), pose_y (m_solver s), pose_yaw (m_solver s));
        rel = max (1 - m_confidence s) 0;
        first_run = solve_iterations E grid points (m_solver_iterations s) (m_solver s)
    in case spec_trials E grid points (m_solver_iterations s) guess
              (m_sample_std_x s * rel, m_sample_std_y s * rel, m_sample_std_yaw s * rel)
              (nat (m_sample_rate s))
              (first_run, m_generator s, (None, None, None),
               (pose_x first_run, pose_y first_run, pose_yaw first_run, r_norm first_run))
       of (sol, gen, caches, (bx, by, byaw, bscore)) \<Rightarrow>
          s_solver (hypothesis_search E grid points s) = sol\<lparr>pose_x := bx, pose_y := by, pose_yaw := byaw\<rparr>
        \<and> s_generator (hypothesis_search E grid points s) = gen
        \<and> best_score (hypothesis_search E grid points s) = bscore)"
proof -
  have init: "trial_of (search_init E grid points s)
      = (solve_iterations E grid points (m_solver_iterations s) (m_solver s), m_generator s,
         (None, None, None),
         (pose_x (solve_iterations E grid points (m_solver_iterations s) (m_solver s)),
          pose_y (solve_iterations E grid points (m_solver_iterations s) (m_solver s)),
          pose_yaw (solve_iterations E grid points (m_solver_iterations s) (m_solver s)),
          r_norm (solve_iterations E grid points (m_solver_iterations s) (m_solver s))))"
    by (simp add: trial_of_def search_init_def Let_def)
  have params: "dist_mean (dist_x (search_init E grid points s)) = pose_x (m_solver s)"
    "dist_mean (dist_y (search_init E grid points s)) = pose_y (m_solver s)"
    "dist_mean (dist_yaw (search_init E grid points s)) = pose_yaw (m_solver s)"
    "dist_stddev (dist_x (search_init E grid points s)) = m_sample_std_x s * max (1 - m_confidence s) 0"
    "dist_stddev (dist_y (search_init E grid points s)) = m_sample_std_y s * max (1 - m_confidence s) 0"
    "dist_stddev (dist_yaw (search_init E grid points s)) = m_sample_std_yaw s * max (1 - m_confidence s) 0"
    by (simp_all add: search_init_def Let_def)
  note run = spec_trials_funpow [where E = E and grid = grid and points = points
      and iters = "m_solver_iterations s" and n = "nat (m_sample_rate s)"
      and st = "search_init E grid points s", unfolded params init, folded search_after_def]
  show ?thesis
    unfolding Let_def run [symmetric]
    by (simp add: trial_of_def hypothesis_search_def Let_def)
qed

lemma node1_map: "m_map node1 = Some (convert_map map0 (GridMap 2 (1 / 20)))"
  by (simp add: node1_def map_callback_def Let_def map0_fields ext0_simps funpow_ident)

lemma scan_callback_frames:
  "m_map_frame (snd (scan_callback E tf scan s)) = m_map_frame s"
  "m_odom_frame (snd (scan_callback E tf scan s)) = m_odom_frame s"
  "m_base_frame (snd (scan_callback E tf scan s)) = m_base_frame s"
  "m_broadcast_tf (snd (scan_callback E tf scan s)) = m_broadcast_tf s"
  by (simp_all add: scan_callback_def Let_def apply_correction_def apply_confidence_gain_def
        blend_offset_def set_initial_guess_def split: option.splits)

lemma apply_correction_time: "m_offset_time (apply_correction E L t s) = t"
  by (simp add: apply_correction_def Let_def apply_confidence_gain_def blend_offset_def)

lemma scan_nan_kept: "10 \<le> length (filter (\<lambda>r. gt_zero r \<or> r = NaN) (ranges scan_nan))"
  by (simp add: scan_nan_def)

section \<open>The claims\<close>

subsection \<open>Confidence\<close>

text \<open>
  C1. The claim: a scan-driven correction updates the confidence by
  \<open>confidence += (maxConfidence - confidence) * confidenceGain\<close> with the configured
  \<^verbatim>\<open>confidence_gain\<close>. The source reads \<^verbatim>\<open>confidence_gain\<close> into \<open>m_confidence_gain\<close> in the
  constructor and then multiplies by the literal \<open>0.01\<close>. On a node configured with
  \<^verbatim>\<open>confidence_gain = 0.5\<close> (and the default \<^verbatim>\<open>max_confidence = 0.95\<close>), the first accepted
  scan takes the confidence from 0 to 0.0095, where the claimed formula gives 0.475.
\<close>

theorem confidence_gain_ignored:
  "m_confidence_gain node1 = 1 / 2 \<and> m_confidence node1 = 0 \<and> m_max_confidence node1 = 19 / 20
   \<and> m_confidence (snd (scan_callback ext0 tf0 scan0 node1)) = 19 / 2000
   \<and> m_confidence node1 + (m_max_confidence node1 - m_confidence node1) * m_confidence_gain node1 = 19 / 40"
  using node2_confidence by (simp add: node1_fields node2_def)

text \<open>
  C8. Assuming \<open>0 \<le> confidence \<le> maxConfidence \<le> 1\<close> beforehand: a scan callback leaves
  the confidence non-decreasing and at most \<open>maxConfidence\<close>; whenever a callback lowers the
  confidence, it sets it to 0 and the callback is not the scan callback (so it is the map
  or the pose estimate callback); and after any sequence of callbacks the confidence is
  still within \<open>[0, maxConfidence]\<close>.
\<close>

theorem confidence_stays_in_range:
  assumes "0 \<le> m_confidence s" and "m_confidence s \<le> m_max_confidence s"
    and "m_max_confidence s \<le> 1"
  shows "(m_confidence s \<le> m_confidence (snd (scan_callback E tf scan s))
          \<and> m_confidence (snd (scan_callback E tf scan s)) \<le> m_max_confidence s)
       \<and> (m_confidence (handle E msg s) < m_confidence s
            \<longrightarrow> m_confidence (handle E msg s) = 0 \<and> (\<forall>tf' scan'. msg \<noteq> ScanMsg tf' scan'))
       \<and> (0 \<le> m_confidence (fold (handle E) msgs s)
          \<and> m_confidence (fold (handle E) msgs s) \<le> m_max_confidence s)"
proof -
  note grow = gain_step_bounds(1) [OF assms(2)] and cap = gain_step_bounds(2) [OF assms(2)]
  have scan: "m_confidence s \<le> m_confidence (snd (scan_callback E' tf' scan' s))
      \<and> m_confidence (snd (scan_callback E' tf' scan' s)) \<le> m_max_confidence s" for E' :: "'a ext" and tf' scan'
    using scan_callback_confidence [of E' tf' scan' s] grow cap assms by auto
  have reset: "m_confidence (handle E msg s) < m_confidence s
      \<longrightarrow> m_confidence (handle E msg s) = 0 \<and> (\<forall>tf' scan'. msg \<noteq> ScanMsg tf' scan')"
  proof (cases msg)
    case (ScanMsg tf' scan')
    then show ?thesis using scan [of E tf' scan'] by simp
  next
    case (PoseMsg tf' pose)
    then show ?thesis using pose_callback_confidence [of E tf' pose s] by auto
  next
    case (MapMsg ros_map)
    then show ?thesis using map_callback_confidence [of E ros_map s] by auto
  qed
  from scan [of E tf scan] reset handle_confidence_run [OF assms(1) assms(2), of E msgs]
  show ?thesis by simp
qed

theorem confidence_stays_in_range_witness:
  "0 \<le> m_confidence node2 \<and> m_confidence node2 \<le> m_max_confidence node2 \<and> m_max_confidence node2 \<le> 1
   \<and> m_confidence node2 \<le> m_confidence (snd (scan_callback ext0 tf0 scan0 node2))
   \<and> m_confidence (snd (scan_callback ext0 tf0 scan0 node2)) \<le> m_max_confidence node2
   \<and> m_confidence (handle ext0 (MapMsg map0) node2) < m_confidence node2
   \<and> m_confidence (handle ext0 (MapMsg map0) node2) = 0
   \<and> 0 \<le> m_confidence (fold (handle ext0) [ScanMsg tf0 scan0, PoseMsg tf0 pose0, ScanMsg tf0 scan_few] node2)
   \<and> m_confidence (fold (handle ext0) [ScanMsg tf0 scan0, PoseMsg tf0 pose0, ScanMsg tf0 scan_few] node2)
        \<le> m_max_confidence node2"
proof -
  have m: "m_max_confidence node2 = 19 / 20"
    by (simp add: node2_def scan_callback_max_confidence node1_fields)
  have h: "0 \<le> m_confidence node2" "m_confidence node2 \<le> m_max_confidence node2" "m_max_confidence node2 \<le> 1"
    by (simp_all add: node2_confidence m)
  have z: "m_confidence (handle ext0 (MapMsg map0) node2) < m_confidence node2"
    by (simp add: map_callback_def map0_def Let_def node2_confidence)
  from confidence_stays_in_range [OF h, of ext0 tf0 scan0 "MapMsg map0"
      "[ScanMsg tf0 scan0, PoseMsg tf0 pose0, ScanMsg tf0 scan_few]"] h z
  show ?thesis by simp
qed

subsection \<open>Skipped and rejected inputs\<close>

text \<open>
  C4, as stated, fails. The source skips a range only when \<^verbatim>\<open>ranges[i] <= 0\<close> holds, which
  is false for NaN, so a NaN range makes a point. A scan with three ranges greater than
  0 and seven NaN ranges has fewer than 10 ranges greater than 0, yet the cycle runs:
  the confidence goes from 0 to 0.0095, the offset is stamped with the scan's time and a
  transform is sent.
\<close>

theorem nan_ranges_are_not_skipped:
  "length (filter gt_zero (ranges scan_nan)) < 10
   \<and> m_confidence node1 = 0
   \<and> m_confidence (snd (scan_callback ext0 tf0 scan_nan node1)) = 19 / 2000
   \<and> m_offset_time node1 = 0
   \<and> m_offset_time (snd (scan_callback ext0 tf0 scan_nan node1)) = 8
   \<and> SendTransform
        \<lparr>header_stamp = 8, header_frame_id = ''map'', child_frame_id = ''odom'',
         translation = (m_offset_x (snd (scan_callback ext0 tf0 scan_nan node1)),
                        m_offset_y (snd (scan_callback ext0 tf0 scan_nan node1)), 0),
         rotation = createQuaternionFromYaw ext0
                      (m_offset_yaw (snd (scan_callback ext0 tf0 scan_nan node1)))\<rparr>
       \<in> set (fst (scan_callback ext0 tf0 scan_nan node1))"
proof -
  obtain a b where a: "tf0 (m_base_frame node1) (scan_frame_id scan_nan) (scan_stamp scan_nan) = Some a"
    and b: "tf0 (m_odom_frame node1) (m_base_frame node1) (scan_stamp scan_nan) = Some b"
    by (simp add: tf0_def)
  note S = scan_callback_success [where E = ext0 and tf = tf0 and s = node1 and scan = scan_nan,
      OF node1_map a b scan_nan_kept, unfolded Let_def]
  have few: "length (filter gt_zero (ranges scan_nan)) < 10"
    by (simp add: scan_nan_def)
  have c: "m_confidence (snd (scan_callback ext0 tf0 scan_nan node1)) = 19 / 2000"
    unfolding S(1) by (simp add: apply_correction_confidence set_initial_guess_fields node1_fields)
  have t: "m_offset_time (snd (scan_callback ext0 tf0 scan_nan node1)) = 8"
    unfolding S(1) by (simp add: apply_correction_time scan_nan_def)
  have sent: "fst (scan_callback ext0 tf0 scan_nan node1)
      = [SendTransform
        \<lparr>header_stamp = 8, header_frame_id = ''map'', child_frame_id = ''odom'',
         translation = (m_offset_x (snd (scan_callback ext0 tf0 scan_nan node1)),
                        m_offset_y (snd (scan_callback ext0 tf0 scan_nan node1)), 0),
         rotation = createQuaternionFromYaw ext0
                      (m_offset_yaw (snd (scan_callback ext0 tf0 scan_nan node1)))\<rparr>]"
    unfolding S(2) by (simp add: broadcast_def scan_callback_frames node1_fields t)
  from few node1_fields(1) c node1_fields(13) t sent show ?thesis by simp
qed

text \<open>
  C4, amended. When fewer than 10 scan points are produced, that is, when fewer than 10
  ranges are greater than 0 or NaN (the ranges for which \<^verbatim>\<open>ranges[i] <= 0\<close> is false), the
  scan callback leaves the offset (x, y, yaw), the confidence and the offset's timestamp
  unchanged, and sends no transform.
\<close>

theorem too_few_points_skips_cycle:
  assumes "length (filter (\<lambda>r. gt_zero r \<or> r = NaN) (ranges scan)) < 10"
  shows "m_offset_x (snd (scan_callback E tf scan s)) = m_offset_x s
       \<and> m_offset_y (snd (scan_callback E tf scan s)) = m_offset_y s
       \<and> m_offset_yaw (snd (scan_callback E tf scan s)) = m_offset_yaw s
       \<and> m_confidence (snd (scan_callback E tf scan s)) = m_confidence s
       \<and> m_offset_time (snd (scan_callback E tf scan s)) = m_offset_time s
       \<and> (\<forall>t. SendTransform t \<notin> set (fst (scan_callback E tf scan s)))"
  using scan_skip [OF assms, of E tf s] by (auto simp: set_initial_guess_fields)

theorem too_few_points_skips_cycle_witness:
  "length (filter (\<lambda>r. gt_zero r \<or> r = NaN) (ranges scan_few)) < 10
   \<and> m_offset_x (snd (scan_callback ext0 tf0 scan_few node2)) = m_offset_x node2
   \<and> m_offset_y (snd (scan_callback ext0 tf0 scan_few node2)) = m_offset_y node2
   \<and> m_offset_yaw (snd (scan_callback ext0 tf0 scan_few node2)) = m_offset_yaw node2
   \<and> m_confidence (snd (scan_callback ext0 tf0 scan_few node2)) = m_confidence node2
   \<and> m_offset_time (snd (scan_callback ext0 tf0 scan_few node2)) = m_offset_time node2
   \<and> (\<forall>t. SendTransform t \<notin> set (fst (scan_callback ext0 tf0 scan_few node2)))
   \<and> fst (scan_callback ext0 tf0 scan_few node2) = [WARN ''Number of points too low: '']"
proof -
  have h: "length (filter (\<lambda>r. gt_zero r \<or> r = NaN) (ranges scan_few)) < 10"
    by (simp add: scan_few_def)
  have w: "fst (scan_callback ext0 tf0 scan_few node2) = [WARN ''Number of points too low: '']"
    by (simp add: few_example)
  from too_few_points_skips_cycle [OF h, of ext0 tf0 node2] h w show ?thesis by blast
qed

text \<open>
  C5. A map whose width differs from its height is rejected: the callback only warns and
  returns the node exactly as it was (grid, grid-to-map transform, offset, confidence and
  every other member).
\<close>

theorem non_square_map_rejected:
  assumes "info_width ros_map \<noteq> info_height ros_map"
  shows "map_callback E ros_map s = ([WARN ''NeoLocalizationNode: Invalid map dimensions!''], s)"
  using assms by (simp add: map_callback_def)

theorem non_square_map_rejected_witness:
  "info_width map_50x60 \<noteq> info_height map_50x60
   \<and> map_callback ext0 map_50x60 node2 = ([WARN ''NeoLocalizationNode: Invalid map dimensions!''], node2)"
proof -
  have h: "info_width map_50x60 \<noteq> info_height map_50x60"
    by (simp add: map_50x60_def)
  from non_square_map_rejected [OF h, of ext0 node2] h show ?thesis by simp
qed

text \<open>
  C10. A pose estimate in the map frame whose base-to-odom lookup (at time 0, the latest
  transform) fails leaves the node exactly as it was: offset, timestamp and confidence are
  unchanged, and the only effect is the warning, so no transform is sent.
\<close>

theorem pose_lookup_failure_keeps_state:
  assumes "pose_frame_id pose = m_map_frame s"
    and "tf (m_odom_frame s) (m_base_frame s) 0 = None"
  shows "pose_callback E tf pose s
           = ([WARN ''NeoLocalizationNode: lookupTransform(m_base_frame, m_odom_frame) failed!''], s)"
  using assms by (simp add: pose_callback_def Let_def)

theorem pose_lookup_failure_keeps_state_witness:
  "pose_frame_id pose0 = m_map_frame node2
   \<and> tf_unavailable (m_odom_frame node2) (m_base_frame node2) 0 = None
   \<and> pose_callback ext0 tf_unavailable pose0 node2
        = ([WARN ''NeoLocalizationNode: lookupTransform(m_base_frame, m_odom_frame) failed!''], node2)"
proof -
  have h: "pose_frame_id pose0 = m_map_frame node2"
    "tf_unavailable (m_odom_frame node2) (m_base_frame node2) 0 = None"
    by (simp_all add: pose0_def node2_frames tf_unavailable_def)
  from pose_lookup_failure_keeps_state [where tf = tf_unavailable and E = ext0, OF h] h show ?thesis by simp
qed

subsection \<open>The pose estimate\<close>

text \<open>
  C6, as stated, fails: a pose estimate in the map frame is not applied when the
  base-to-odom lookup fails. Here the node keeps its confidence of 0.0095 and every other
  member.
\<close>

theorem pose_estimate_not_applied_without_odom:
  "pose_frame_id pose0 = m_map_frame node2
   \<and> m_confidence node2 = 19 / 2000
   \<and> snd (pose_callback ext0 tf_unavailable pose0 node2) = node2
   \<and> m_confidence (snd (pose_callback ext0 tf_unavailable pose0 node2)) \<noteq> 0"
  by (simp add: pose_callback_def tf_unavailable_def pose0_def node2_frames node2_confidence Let_def)

text \<open>
  C6, amended. A pose estimate whose frame is the map frame and whose base-to-odom lookup
  succeeds overwrites the offset with the offset computed from the estimate and the
  odometry alone (the previous offset does not enter), stamps it with the estimate's time
  and sets the confidence to 0. An estimate in any other frame is rejected: the node is
  unchanged and only a warning is emitted.
\<close>

theorem pose_estimate_overwrites_offset:
  "(pose_frame_id pose = m_map_frame s \<and> tf (m_odom_frame s) (m_base_frame s) 0 = Some base_to_odom \<longrightarrow>
      (let new_offset = mat_project E
             (mat_mul E
                (mat_mul E (convert_transform_25 E (poseMsgToTF E (pose_pose pose)))
                   (mat_inverse E (convert_transform_25 E base_to_odom)))
                (vec4 0 0 0 1));
           s' = snd (pose_callback E tf pose s)
       in m_offset_x s' = new_offset 0 0 \<and> m_offset_y s' = new_offset 1 0
          \<and> m_offset_yaw s' = new_offset 2 0 \<and> m_offset_time s' = pose_stamp pose
          \<and> m_confidence s' = 0))
   \<and> (pose_frame_id pose \<noteq> m_map_frame s \<longrightarrow>
        pose_callback E tf pose s = ([WARN (''NeoLocalizationNode: Invalid pose estimate frame: '' @ pose_frame_id pose)], s))"
  by (simp add: pose_callback_def Let_def)

theorem pose_estimate_overwrites_offset_witness:
  "pose_frame_id pose0 = m_map_frame node2
   \<and> tf_moved (m_odom_frame node2) (m_base_frame node2) 0 = Some odom_at_4
   \<and> m_offset_x (snd (pose_callback ext0 tf_moved pose0 node2)) = - 3
   \<and> m_offset_y (snd (pose_callback ext0 tf_moved pose0 node2)) = 2
   \<and> m_offset_yaw (snd (pose_callback ext0 tf_moved pose0 node2)) = 0
   \<and> m_offset_time (snd (pose_callback ext0 tf_moved pose0 node2)) = 9
   \<and> m_confidence (snd (pose_callback ext0 tf_moved pose0 node2)) = 0
   \<and> pose_frame_id pose_odom \<noteq> m_map_frame node2
   \<and> pose_callback ext0 tf_moved pose_odom node2
       = ([WARN ''NeoLocalizationNode: Invalid pose estimate frame: odom''], node2)"
proof -
  have h: "pose_frame_id pose0 = m_map_frame node2 \<and> tf_moved (m_odom_frame node2) (m_base_frame node2) 0 = Some odom_at_4"
    by (simp add: pose0_def node2_frames tf_moved_def)
  have n: "pose_frame_id pose_odom \<noteq> m_map_frame node2" "pose_frame_id pose_odom = ''odom''"
    by (simp_all add: pose_odom_def pose0_def node2_frames)
  have v: "mat_project ext0
             (mat_mul ext0
                (mat_mul ext0 (convert_transform_25 ext0 (poseMsgToTF ext0 (pose_pose pose0)))
                   (mat_inverse ext0 (convert_transform_25 ext0 odom_at_4)))
                (vec4 0 0 0 1)) 0 0 = - 3"
    "mat_project ext0
             (mat_mul ext0
                (mat_mul ext0 (convert_transform_25 ext0 (poseMsgToTF ext0 (pose_pose pose0)))
                   (mat_inverse ext0 (convert_transform_25 ext0 odom_at_4)))
                (vec4 0 0 0 1)) (Suc 0) 0 = 2"
    "mat_project ext0
             (mat_mul ext0
                (mat_mul ext0 (convert_transform_25 ext0 (poseMsgToTF ext0 (pose_pose pose0)))
                   (mat_inverse ext0 (convert_transform_25 ext0 odom_at_4)))
                (vec4 0 0 0 1)) 2 0 = 0"
    by (simp_all add: ext0_def pose0_def odom_at_4_def convert_transform_25_def mat_set_def
          mat_zero_def vec4_def mat_init_def)
  have t: "pose_stamp pose0 = 9"
    by (simp add: pose0_def)
  note T = pose_estimate_overwrites_offset [where E = ext0 and tf = tf_moved and s = node2 and pose = pose0 and base_to_odom = odom_at_4]
  note U = pose_estimate_overwrites_offset [where E = ext0 and tf = tf_moved and s = node2 and pose = pose_odom and base_to_odom = odom_at_4]
  from T h have a: "m_offset_x (snd (pose_callback ext0 tf_moved pose0 node2)) = - 3
   \<and> m_offset_y (snd (pose_callback ext0 tf_moved pose0 node2)) = 2
   \<and> m_offset_yaw (snd (pose_callback ext0 tf_moved pose0 node2)) = 0
   \<and> m_offset_time (snd (pose_callback ext0 tf_moved pose0 node2)) = 9
   \<and> m_confidence (snd (pose_callback ext0 tf_moved pose0 node2)) = 0"
    by (simp add: Let_def v t)
  from U n have b: "pose_callback ext0 tf_moved pose_odom node2
       = ([WARN ''NeoLocalizationNode: Invalid pose estimate frame: odom''], node2)"
    by simp
  from h a n(1) b show ?thesis by blast
qed

subsection \<open>Blending the yaw\<close>

text \<open>
  C2, as stated, fails: the blended yaw is not wrapped. From yaw 3 towards a corrected yaw
  of -3 with update gain 3/4 the filter yields \<open>3 * pi / 2 - 3 / 2\<close>, which is above \<open>pi\<close>.
\<close>

theorem blended_yaw_leaves_range:
  "m_update_gain node_yaw3 = 3 / 4 \<and> m_offset_yaw node_yaw3 = 3 \<and> offset_yaw_minus3 2 0 = - 3
   \<and> m_offset_yaw (blend_offset offset_yaw_minus3 1 node_yaw3) = 3 * pi / 2 - 3 / 2
   \<and> \<not> (- pi < m_offset_yaw (blend_offset offset_yaw_minus3 1 node_yaw3)
        \<and> m_offset_yaw (blend_offset offset_yaw_minus3 1 node_yaw3) \<le> pi)"
  using pi_gt_three
  by (simp add: blend_offset_def node_yaw3_def offset_yaw_minus3_def mat_init_def shortest_3_minus3
        algebra_simps)

text \<open>
  C2, amended. The filter adds to the yaw the update gain times the shortest angular
  distance \<open>d\<close> from the old yaw to the corrected yaw; \<open>d\<close> lies in \<open>(-pi, pi]\<close> and
  \<open>yaw + d\<close> is the corrected yaw up to a multiple of \<open>2 * pi\<close>. For an update gain in
  \<open>[0, 1]\<close> the new yaw lies between the old yaw and \<open>yaw + d\<close>: it moves along the shorter
  arc (from 3 towards -3 it moves up through \<open>pi\<close>). The new yaw itself is not wrapped.
\<close>

theorem blend_yaw_shorter_path:
  "(let yaw = m_offset_yaw s;
        d = shortest_angular_distance yaw (new_offset 2 0);
        yaw' = m_offset_yaw (blend_offset new_offset stamp s)
    in yaw' = yaw + d * m_update_gain s
       \<and> - pi < d \<and> d \<le> pi
       \<and> (\<exists>k::int. yaw + d = new_offset 2 0 + 2 * pi * of_int k)
       \<and> (0 \<le> m_update_gain s \<and> m_update_gain s \<le> 1 \<longrightarrow>
            (0 \<le> d \<longrightarrow> yaw \<le> yaw' \<and> yaw' \<le> yaw + d)
          \<and> (d \<le> 0 \<longrightarrow> yaw + d \<le> yaw' \<and> yaw' \<le> yaw)))"
proof -
  have 1: "m_offset_yaw (blend_offset new_offset stamp s)
      = m_offset_yaw s + shortest_angular_distance (m_offset_yaw s) (new_offset 2 0) * m_update_gain s"
    by (simp add: blend_offset_def)
  show ?thesis
    unfolding Let_def 1
    using shortest_angular_distance_range [of "m_offset_yaw s" "new_offset 2 0"]
      shortest_angular_distance_target [of "m_offset_yaw s" "new_offset 2 0"]
      scale_between [of "m_update_gain s" "shortest_angular_distance (m_offset_yaw s) (new_offset 2 0)"]
    by auto
qed

theorem blend_yaw_shorter_path_witness:
  "0 \<le> m_update_gain (node_yaw3\<lparr>m_update_gain := 1 / 2\<rparr>)
   \<and> m_update_gain (node_yaw3\<lparr>m_update_gain := 1 / 2\<rparr>) \<le> 1
   \<and> 0 \<le> shortest_angular_distance 3 (- 3)
   \<and> shortest_angular_distance 3 (- 3) \<le> pi
   \<and> m_offset_yaw (blend_offset offset_yaw_minus3 1 (node_yaw3\<lparr>m_update_gain := 1 / 2\<rparr>)) = pi
   \<and> 3 \<le> m_offset_yaw (blend_offset offset_yaw_minus3 1 (node_yaw3\<lparr>m_update_gain := 1 / 2\<rparr>))
   \<and> m_offset_yaw (blend_offset offset_yaw_minus3 1 (node_yaw3\<lparr>m_update_gain := 1 / 2\<rparr>))
        \<le> 3 + shortest_angular_distance 3 (- 3)"
proof -
  let ?s = "node_yaw3\<lparr>m_update_gain := 1 / 2\<rparr>"
  let ?yaw' = "m_offset_yaw (blend_offset offset_yaw_minus3 1 ?s)"
  have y: "m_offset_yaw ?s = 3" "offset_yaw_minus3 2 0 = - 3" "m_update_gain ?s = 1 / 2"
    by (simp_all add: node_yaw3_def offset_yaw_minus3_def mat_init_def)
  have g: "0 \<le> m_update_gain ?s \<and> m_update_gain ?s \<le> 1"
    by (simp add: y)
  have d: "0 \<le> shortest_angular_distance 3 (- 3)"
    using pi_gt_three by (simp add: shortest_3_minus3)
  note T = blend_yaw_shorter_path [of ?s offset_yaw_minus3 1, unfolded Let_def y]
  from T have e: "?yaw' = 3 + shortest_angular_distance 3 (- 3) * (1 / 2)"
    by blast
  from T have r: "shortest_angular_distance 3 (- 3) \<le> pi"
    by blast
  from T g d have b: "3 \<le> ?yaw' \<and> ?yaw' \<le> 3 + shortest_angular_distance 3 (- 3)"
    unfolding y by blast
  have p: "3 + shortest_angular_distance 3 (- 3) * (1 / 2) = pi"
    by (simp add: shortest_3_minus3 field_simps)
  from g d r e p b show ?thesis by simp
qed

subsection \<open>The hypothesis search\<close>



text \<open>
  C7. In a scan cycle that reaches the search (map loaded, both lookups succeed, at least
  10 points), the search inside the scan callback is the specification's sequence of
  trials: exactly \<open>m_sample_rate\<close> candidates, each drawn in the order x, y, yaw with mean
  the corresponding coordinate of the initial guess (the odometry prediction written into
  the solver before the first run, not the refined pose) and standard deviation the
  configured \<^verbatim>\<open>sample_std\<close> of that axis times \<open>max (1 - confidence) 0\<close>, where the
  confidence is the one the node holds when the scan arrives. The node the callback
  returns is the correction applied to the best pose and the generator those trials
  leave.
\<close>

theorem scan_cycle_draws_around_initial_guess:
  assumes "m_map s = Some grid"
    and "tf (m_base_frame s) (scan_frame_id scan) (scan_stamp scan) = Some sensor_to_base"
    and "tf (m_odom_frame s) (m_base_frame s) (scan_stamp scan) = Some base_to_odom"
    and "10 \<le> length (filter (\<lambda>r. gt_zero r \<or> r = NaN) (ranges scan))"
  shows "(let L = convert_transform_25 E base_to_odom;
              s1 = set_initial_guess E L s;
              points = scan_points E (convert_transform_3 sensor_to_base) scan;
              guess = (pose_x (m_solver s1), pose_y (m_solver s1), pose_yaw (m_solver s1));
              rel_std_dev = max (1 - m_confidence s) 0;
              first_run = solve_iterations E grid points (m_solver_iterations s) (m_solver s1)
          in case spec_trials E grid points (m_solver_iterations s) guess
                    (m_sample_std_x s * rel_std_dev, m_sample_std_y s * rel_std_dev,
                     m_sample_std_yaw s * rel_std_dev)
                    (nat (m_sample_rate s))
                    (first_run, m_generator s, (None, None, None),
                     (pose_x first_run, pose_y first_run, pose_yaw first_run, r_norm first_run))
             of (sol, gen, caches, (bx, by, byaw, bscore)) \<Rightarrow>
                s_solver (hypothesis_search E grid points s1)
                  = sol\<lparr>pose_x := bx, pose_y := by, pose_yaw := byaw\<rparr>
              \<and> s_generator (hypothesis_search E grid points s1) = gen
              \<and> best_score (hypothesis_search E grid points s1) = bscore
              \<and> snd (scan_callback E tf scan s)
                  = apply_correction E L (scan_stamp scan)
                      (s1\<lparr>m_solver := sol\<lparr>pose_x := bx, pose_y := by, pose_yaw := byaw\<rparr>,
                          m_generator := gen\<rparr>))"
proof -
  let ?s1 = "set_initial_guess E (convert_transform_25 E base_to_odom) s"
  let ?points = "scan_points E (convert_transform_3 sensor_to_base) scan"
  have f: "m_confidence ?s1 = m_confidence s"
    "m_sample_std_x ?s1 = m_sample_std_x s"
    "m_sample_std_y ?s1 = m_sample_std_y s"
    "m_sample_std_yaw ?s1 = m_sample_std_yaw s"
    "m_solver_iterations ?s1 = m_solver_iterations s"
    "m_sample_rate ?s1 = m_sample_rate s"
    "m_generator ?s1 = m_generator s"
    by (simp_all add: set_initial_guess_def Let_def)
  note search = hypothesis_search_spec [of ?s1 E grid ?points, unfolded f Let_def]
  note cycle = scan_callback_success(1) [where E = E and tf = tf and s = s and scan = scan,
      OF assms, unfolded Let_def]
  show ?thesis
    unfolding Let_def cycle using search by (auto split: prod.splits)
qed

theorem scan_cycle_draws_around_initial_guess_witness:
  "m_map node1 = Some (convert_map map0 (GridMap 2 (1 / 20)))
   \<and> tf_moved (m_base_frame node1) (scan_frame_id scan0) (scan_stamp scan0)
       = Some \<lparr>t_basis = (\<lambda>i j. if i = j then 1 else 0), t_origin = (\<lambda>i. 0)\<rparr>
   \<and> tf_moved (m_odom_frame node1) (m_base_frame node1) (scan_stamp scan0) = Some odom_at_4
   \<and> 10 \<le> length (filter (\<lambda>r. gt_zero r \<or> r = NaN) (ranges scan0))
   \<and> m_sample_rate node1 = 2
   \<and> pose_x (m_solver (set_initial_guess ext0 (convert_transform_25 ext0 odom_at_4) node1)) = 4
   \<and> m_generator node1 = 0
   \<and> m_generator (snd (scan_callback ext0 tf_moved scan0 node1)) = 6
   \<and> pose_x (m_solver (snd (scan_callback ext0 tf_moved scan0 node1))) = 5 / 8
   \<and> pose_y (m_solver (snd (scan_callback ext0 tf_moved scan0 node1))) = - (1 / 2)
   \<and> pose_yaw (m_solver (snd (scan_callback ext0 tf_moved scan0 node1))) = - (5 / 2)"
proof -
  have a: "tf_moved (m_base_frame node1) (scan_frame_id scan0) (scan_stamp scan0)
      = Some \<lparr>t_basis = (\<lambda>i j. if i = j then 1 else 0), t_origin = (\<lambda>i. 0)\<rparr>"
    and b: "tf_moved (m_odom_frame node1) (m_base_frame node1) (scan_stamp scan0) = Some odom_at_4"
    by (simp_all add: tf_moved_def node1_fields)
  note T = scan_cycle_draws_around_initial_guess [where E = ext0 and tf = tf_moved and s = node1
      and scan = scan0, OF node1_map a b scan0_valid, unfolded Let_def, folded node_search_def]
  have e: "snd (scan_callback ext0 tf_moved scan0 node1)
      = apply_correction ext0 (convert_transform_25 ext0 odom_at_4) (scan_stamp scan0)
          (node_search\<lparr>m_solver := solver0\<lparr>pose_x := 5 / 8, pose_y := - (1 / 2), pose_yaw := - (5 / 2),
                gain := 1 / 10, damping := 1000, r_norm := 5 / 4\<rparr>, m_generator := 6\<rparr>)"
    using T
    by (simp add: node_search_solver node1_search_fields node1_fields ext0_simps
          solve_iterations_def solver0_def eval_nat_numeral)
  have r: "m_generator (snd (scan_callback ext0 tf_moved scan0 node1)) = 6"
    "pose_x (m_solver (snd (scan_callback ext0 tf_moved scan0 node1))) = 5 / 8"
    "pose_y (m_solver (snd (scan_callback ext0 tf_moved scan0 node1))) = - (1 / 2)"
    "pose_yaw (m_solver (snd (scan_callback ext0 tf_moved scan0 node1))) = - (5 / 2)"
    unfolding e
    by (simp_all add: apply_correction_def Let_def blend_offset_def apply_confidence_gain_def solver0_def)
  have g: "pose_x (m_solver (set_initial_guess ext0 (convert_transform_25 ext0 odom_at_4) node1)) = 4"
    unfolding node_search_def [symmetric] by (simp add: node_search_solver solver0_def)
  from node1_map a b scan0_valid node1_search_fields(2) g node1_search_fields(6) r
  show ?thesis by blast
qed

subsection \<open>Map ingestion\<close>

text \<open>
  C9. For a square map carrying \<open>width * height\<close> cells, the grid the conversion loop
  builds has every cell in \<open>[0, 1]\<close>: cell \<open>(x, y)\<close> is \<open>min (v / 100) 1\<close> for a raw value
  \<open>v \<ge> 0\<close> at index \<open>y * width + x\<close> and 0 for a negative one. The node's map is this grid
  after the configured downscaling and smoothing passes, and it is still within
  \<open>[0, 1]\<close> whenever those passes keep a grid within \<open>[0, 1]\<close>.
\<close>

theorem map_cells_in_unit_range:
  assumes "info_width ros_map = info_height ros_map"
    and "length (og_data ros_map) = info_width ros_map * info_height ros_map"
  shows "(let n = info_width ros_map;
              grid = convert_map ros_map (GridMap n (info_resolution ros_map))
          in (\<forall>x y. 0 \<le> g_cells grid x y \<and> g_cells grid x y \<le> 1)
             \<and> (\<forall>x y. x < n \<and> y < n \<longrightarrow>
                   y * n + x < length (og_data ros_map)
                 \<and> g_cells grid (int x) (int y)
                     = (let v = sint (og_data ros_map ! (y * n + x))
                        in if 0 \<le> v then min (real_of_int v / 100) 1 else 0))
             \<and> m_map (snd (map_callback E ros_map s))
                 = Some (((smooth_33_1 E) ^^ nat (m_num_smooth s))
                           (((downscale E) ^^ nat (m_map_downscale s)) grid))
             \<and> ((\<forall>g. in_unit_range g \<longrightarrow> in_unit_range (downscale E g))
                  \<and> (\<forall>g. in_unit_range g \<longrightarrow> in_unit_range (smooth_33_1 E g))
                \<longrightarrow> (\<exists>g. m_map (snd (map_callback E ros_map s)) = Some g \<and> in_unit_range g)))"
proof -
  let ?n = "info_width ros_map"
  let ?grid = "convert_map ros_map (GridMap ?n (info_resolution ros_map))"
  have range: "\<forall>x y. 0 \<le> g_cells ?grid x y \<and> g_cells ?grid x y \<le> 1"
    using convert_map_in_unit_range [of ros_map ?n "info_resolution ros_map"]
    by (simp add: in_unit_range_def)
  have idx: "y * ?n + x < length (og_data ros_map)" if "x < ?n" "y < ?n" for x y
  proof -
    have "y * ?n + x < y * ?n + ?n" using that by simp
    also have "\<dots> = Suc y * ?n" by simp
    also have "\<dots> \<le> ?n * ?n" using that by (intro mult_le_mono1) simp
    finally show ?thesis using assms by simp
  qed
  have cell: "g_cells ?grid (int x) (int y)
      = (let v = sint (og_data ros_map ! (y * ?n + x))
         in if 0 \<le> v then min (real_of_int v / 100) 1 else 0)" if "x < ?n" "y < ?n" for x y
  proof -
    have "g_cells ?grid (int x) (int y) = convert_cell (og_data ros_map ! (y * ?n + x))"
      using that by (simp add: convert_map_cells)
    then show ?thesis by (simp only: convert_cell_def Let_def)
  qed
  have installed: "m_map (snd (map_callback E ros_map s))
      = Some (((smooth_33_1 E) ^^ nat (m_num_smooth s)) (((downscale E) ^^ nat (m_map_downscale s)) ?grid))"
    using assms(1) by (simp add: map_callback_def Let_def)
  have kept: "in_unit_range (((smooth_33_1 E) ^^ nat (m_num_smooth s)) (((downscale E) ^^ nat (m_map_downscale s)) ?grid))"
    if "\<forall>g. in_unit_range g \<longrightarrow> in_unit_range (downscale E g)"
      and "\<forall>g. in_unit_range g \<longrightarrow> in_unit_range (smooth_33_1 E g)"
    using that by (intro funpow_in_unit_range convert_map_in_unit_range) blast+
  have cells: "\<forall>x y. x < ?n \<and> y < ?n \<longrightarrow>
        y * ?n + x < length (og_data ros_map)
      \<and> g_cells ?grid (int x) (int y)
          = (let v = sint (og_data ros_map ! (y * ?n + x))
             in if 0 \<le> v then min (real_of_int v / 100) 1 else 0)"
    using idx cell by blast
  have unit: "(\<forall>g. in_unit_range g \<longrightarrow> in_unit_range (downscale E g))
        \<and> (\<forall>g. in_unit_range g \<longrightarrow> in_unit_range (smooth_33_1 E g))
      \<longrightarrow> (\<exists>g. m_map (snd (map_callback E ros_map s)) = Some g \<and> in_unit_range g)"
    unfolding installed using kept by blast
  from range cells installed unit show ?thesis
    unfolding Let_def by (intro conjI)
qed

theorem map_cells_in_unit_range_witness:
  "info_width map0 = info_height map0
   \<and> length (og_data map0) = info_width map0 * info_height map0
   \<and> g_cells (convert_map map0 (GridMap 2 (1 / 20))) 0 0 = 0
   \<and> g_cells (convert_map map0 (GridMap 2 (1 / 20))) 1 0 = 1 / 2
   \<and> g_cells (convert_map map0 (GridMap 2 (1 / 20))) 0 1 = 1
   \<and> g_cells (convert_map map0 (GridMap 2 (1 / 20))) 1 1 = 0
   \<and> downscale ext0 = (\<lambda>g. g) \<and> smooth_33_1 ext0 = (\<lambda>g. g)
   \<and> m_map node1 = Some (convert_map map0 (GridMap 2 (1 / 20)))
   \<and> in_unit_range (convert_map map0 (GridMap 2 (1 / 20)))"
proof -
  have h: "info_width map0 = info_height map0" "length (og_data map0) = info_width map0 * info_height map0"
    by (simp_all add: map0_fields)
  note T = map_cells_in_unit_range [OF h, of ext0 node0, unfolded Let_def map0_fields, folded node1_def]
  have p: "\<forall>g. in_unit_range g \<longrightarrow> in_unit_range (downscale ext0 g)"
    "\<forall>g. in_unit_range g \<longrightarrow> in_unit_range (smooth_33_1 ext0 g)"
    by (simp_all add: ext0_simps)
  note T2 = T [THEN conjunct2]
  note T3 = T2 [THEN conjunct2]
  have c: "x < 2 \<and> y < 2 \<longrightarrow>
      g_cells (convert_map map0 (GridMap 2 (1 / 20))) (int x) (int y)
        = (if 0 \<le> sint ([0, 50, 127, - 1 :: 8 word] ! (y * 2 + x))
           then min (real_of_int (sint ([0, 50, 127, - 1 :: 8 word] ! (y * 2 + x))) / 100) 1 else 0)" for x y
    using T2 [THEN conjunct1, rule_format, of x y] by simp
  have c00: "g_cells (convert_map map0 (GridMap 2 (1 / 20))) 0 0 = 0"
    using c [of 0 0] by simp
  have c10: "g_cells (convert_map map0 (GridMap 2 (1 / 20))) 1 0 = 1 / 2"
    using c [of 1 0] by simp
  have c01: "g_cells (convert_map map0 (GridMap 2 (1 / 20))) 0 1 = 1"
    using c [of 0 1] by simp
  have c11: "g_cells (convert_map map0 (GridMap 2 (1 / 20))) 1 1 = 0"
    using c [of 1 1] by simp
  have m: "m_map node1 = Some (((smooth_33_1 ext0) ^^ nat (m_num_smooth node0))
      (((downscale ext0) ^^ nat (m_map_downscale node0)) (convert_map map0 (GridMap 2 (1 / 20)))))"
    by (rule T3 [THEN conjunct1])
  have m': "m_map node1 = Some (convert_map map0 (GridMap 2 (1 / 20)))"
    unfolding m by (simp add: ext0_simps funpow_ident)
  from T3 [THEN conjunct2] p m' have u: "in_unit_range (convert_map map0 (GridMap 2 (1 / 20)))"
    by auto
  from h c00 c10 c01 c11 ext0_simps(3,4) m' u show ?thesis by blast
qed

end
